theory Spec2Isabelle
  imports Main
begin

section \<open>AnonCreds utilities for W3C credential records (w3cAnonCredsUtils.ts)\<close>

text \<open>
  A shallow embedding of \<^verbatim>\<open>packages/anoncreds/src/utils/w3cAnonCredsUtils.ts\<close>.
  Every \<^verbatim>\<open>throw\<close> of the source, and the runtime fault of reading a property of
  \<^verbatim>\<open>undefined\<close>, is a value of the type \<open>error\<close>; a function that can raise
  returns \<open>error + 'a\<close> with \<open>Inl\<close> for the error.
\<close>

subsection \<open>Errors\<close>

text \<open>
  The source raises \<^verbatim>\<open>CredoError\<close> with three different messages; each message is a
  constructor. \<open>TypeError\<close> is the fault JavaScript raises when a property is read off
  \<^verbatim>\<open>undefined\<close>. \<open>InvalidIdentifier\<close> is what the identifier helpers of
  \<^verbatim>\<open>./indyIdentifiers\<close> raise.
\<close>

datatype error =
    MalformedCredentialSubject  \<comment> \<open>'Credential subject must be an object, not an array.'\<close>
  | MissingTags                 \<comment> \<open>'AnonCreds tags not found on credential record.'\<close>
  | MissingMetadata             \<comment> \<open>'AnonCreds metadata not found on credential record.'\<close>
  | InvalidIdentifier
  | TypeError

definition bindE :: "error + 'a \<Rightarrow> ('a \<Rightarrow> error + 'b) \<Rightarrow> error + 'b" where
  "bindE r f = (case r of Inl e \<Rightarrow> Inl e | Inr x \<Rightarrow> f x)"

subsection \<open>Data model\<close>

text \<open>
  A claim of \<^verbatim>\<open>AnonCredsClaimRecord\<close> is a string, a number or a boolean.
\<close>

datatype claim_value = ClaimString string | ClaimNumber int | ClaimBoolean bool

record AnonCredsCredentialValue =
  raw :: string
  encoded :: string

text \<open>
  The values a tag (or a field read off the tag mapping) can hold at run time. A key
  that is present with the value \<^verbatim>\<open>undefined\<close> is \<open>Some TagUndefined\<close> in a tag
  mapping; an absent key is \<open>None\<close>.
\<close>

datatype tag_value =
    TagString string
  | TagBoolean bool
  | TagStrings "string list"
  | TagUndefined
  | TagNull

type_synonym tag_map = "string \<rightharpoonup> tag_value"

text \<open>
  An optional property of an object: the key may be missing, be there with a nullish value
  (\<^verbatim>\<open>null\<close> or \<^verbatim>\<open>undefined\<close>), or be there with a value. \<^verbatim>\<open>for ... in\<close>
  walks the key in the last two cases; \<^verbatim>\<open>?? null\<close> sees a value only in the last.
\<close>

datatype 'a optional_property = KeyAbsent | KeyNullish | KeyValue 'a

text \<open>
  The native credential payload, a plain object. The source reads \<^verbatim>\<open>schema_id\<close>,
  \<^verbatim>\<open>cred_def_id\<close>, \<^verbatim>\<open>rev_reg_id\<close> and \<^verbatim>\<open>values\<close>; the names of the
  object's remaining own enumerable properties (signature and proof material, and whatever
  else the object carries) are kept in \<open>other_keys\<close>. An object holds each key once, so
  \<open>cred_values\<close> (the property \<^verbatim>\<open>values\<close>, a plain object too) lists each attribute
  name at most once.
\<close>

record AnonCredsCredential =
  schema_id :: string
  cred_def_id :: string
  rev_reg_id :: "string optional_property"
  cred_values :: "(string \<times> AnonCredsCredentialValue) list"
  other_keys :: "string list"

record AnonCredsCredentialRecord =
  rec_credential :: AnonCredsCredential
  rec_credentialId :: string
  rec_credentialRevocationId :: "string option"
  rec_methodName :: string
  rec_linkSecretId :: string

text \<open>
  The value of an attribute in the info: a claim, or \<^verbatim>\<open>undefined\<close>, which the native
  path writes when the read of \<^verbatim>\<open>.raw\<close> finds no such property.
\<close>

datatype attribute_value = AttributeValue claim_value | AttributeUndefined

text \<open>
  \<^verbatim>\<open>AnonCredsCredentialInfo\<close>. The three fields that the W3C path reads off the tag
  mapping hold the tag value as stored; \<open>None\<close> in \<open>credentialRevocationId\<close> and
  \<open>TagNull\<close> in \<open>revocationRegistryId\<close> are \<^verbatim>\<open>null\<close>.
\<close>

record AnonCredsCredentialInfo =
  attributes :: "string \<rightharpoonup> attribute_value"
  credentialId :: string
  credentialDefinitionId :: tag_value
  schemaId :: tag_value
  credentialRevocationId :: "string option"
  revocationRegistryId :: tag_value
  methodName :: string
  linkSecretId :: string

subsection \<open>Projection of a native record\<close>

text \<open>
  \<^verbatim>\<open>for (const attribute in anonCredsCredentialRecord.credential)\<close> enumerates the own
  enumerable keys of the credential object (its prototype, \<^verbatim>\<open>Object.prototype\<close>, has
  no enumerable property). \<^verbatim>\<open>rev_reg_id\<close> is walked whenever the key is there, also
  with a nullish value. The order of the keys has no bearing on the result.
\<close>

definition credential_keys :: "AnonCredsCredential \<Rightarrow> string list" where
  "credential_keys c =
     [''schema_id'', ''cred_def_id'']
     @ (case rev_reg_id c of KeyAbsent \<Rightarrow> [] | KeyNullish \<Rightarrow> [''rev_reg_id''] | KeyValue _ \<Rightarrow> [''rev_reg_id''])
     @ [''values'']
     @ other_keys c"

text \<open>
  The names of the properties of \<^verbatim>\<open>Object.prototype\<close>. A read
  \<^verbatim>\<open>credential.values[attribute]\<close> of a key that is not an own key of the value table
  goes up the prototype chain: under one of these names it finds a function (under
  \<^verbatim>\<open>__proto__\<close> the prototype itself), whose \<^verbatim>\<open>.raw\<close> reads \<^verbatim>\<open>undefined\<close>;
  under any other name it finds nothing, and the read of \<^verbatim>\<open>.raw\<close> faults.
\<close>

definition objectPrototypeKeys :: "string list" where
  "objectPrototypeKeys =
     [''constructor'', ''__defineGetter__'', ''__defineSetter__'', ''hasOwnProperty'',
      ''__lookupGetter__'', ''__lookupSetter__'', ''isPrototypeOf'', ''propertyIsEnumerable'',
      ''toString'', ''valueOf'', ''__proto__'', ''toLocaleString'']"

text \<open>
  The write \<^verbatim>\<open>attributes[attribute] = ...\<close> on the fresh object: it makes an own
  property, except under \<^verbatim>\<open>__proto__\<close>, where the setter of \<^verbatim>\<open>Object.prototype\<close>
  runs and ignores a value that is neither an object nor \<^verbatim>\<open>null\<close>.
\<close>

definition assign_attribute ::
  "(string \<rightharpoonup> attribute_value) \<Rightarrow> string \<Rightarrow> attribute_value \<Rightarrow> (string \<rightharpoonup> attribute_value)" where
  "assign_attribute acc k v = (if k = ''__proto__'' then acc else acc(k \<mapsto> v))"

text \<open>
  The loop body \<^verbatim>\<open>attributes[attribute] = credential.values[attribute].raw\<close>, one step
  per key.
\<close>

fun collect_attributes ::
  "(string \<times> AnonCredsCredentialValue) list \<Rightarrow> string list \<Rightarrow> (string \<rightharpoonup> attribute_value)
     \<Rightarrow> error + (string \<rightharpoonup> attribute_value)" where
  "collect_attributes vs [] acc = Inr acc"
| "collect_attributes vs (k # ks) acc =
     (case map_of vs k of
        Some v \<Rightarrow>
          collect_attributes vs ks (assign_attribute acc k (AttributeValue (ClaimString (raw v))))
      | None \<Rightarrow>
          if k \<in> set objectPrototypeKeys
          then collect_attributes vs ks (assign_attribute acc k AttributeUndefined)
          else Inl TypeError)"

definition anoncredsCredentialInfoFromAnoncredsRecord ::
  "AnonCredsCredentialRecord \<Rightarrow> error + AnonCredsCredentialInfo" where
  "anoncredsCredentialInfoFromAnoncredsRecord r =
     bindE (collect_attributes (cred_values (rec_credential r)) (credential_keys (rec_credential r)) Map.empty)
       (\<lambda>attrs. Inr \<lparr>
          attributes = attrs,
          credentialId = rec_credentialId r,
          credentialDefinitionId = TagString (cred_def_id (rec_credential r)),
          schemaId = TagString (schema_id (rec_credential r)),
          credentialRevocationId = rec_credentialRevocationId r,
          revocationRegistryId =
            (case rev_reg_id (rec_credential r) of
               KeyAbsent \<Rightarrow> TagNull | KeyNullish \<Rightarrow> TagNull | KeyValue i \<Rightarrow> TagString i),
          methodName = rec_methodName r,
          linkSecretId = rec_linkSecretId r \<rparr>)"

subsection \<open>W3C credential records\<close>

text \<open>
  \<^verbatim>\<open>credential.credentialSubject\<close> is either one subject or an array of subjects; a
  subject's \<^verbatim>\<open>claims\<close> may be missing. Claims are kept as the list of the object's
  entries (what \<^verbatim>\<open>Object.entries\<close> walks); an object holds each key once.
\<close>

type_synonym claims = "(string \<times> claim_value) list"

datatype credentialSubject =
    SubjectObject "claims option"
  | SubjectArray "claims option list"

record W3cCredential =
  issuerId :: string
  credentialSubject :: credentialSubject

record W3cAnoncredsCredentialMetadata =
  md_credentialId :: string
  md_methodName :: string
  md_credentialRevocationId :: "string option"
  md_linkSecretId :: string

text \<open>
  \<open>anoncredsMetadata\<close> is what \<^verbatim>\<open>record.metadata.get(W3cAnonCredsCredentialMetadataKey)\<close>
  returns (\<open>None\<close> when the side table has no entry) and \<open>w3c_tags\<close> what
  \<^verbatim>\<open>record.getTags()\<close> returns.
\<close>

record W3cCredentialRecord =
  w3c_credential :: W3cCredential
  anoncredsMetadata :: "W3cAnoncredsCredentialMetadata option"
  w3c_tags :: tag_map

datatype CredentialRecord =
    W3cRecord W3cCredentialRecord
  | AnonCredsRecord AnonCredsCredentialRecord

subsection \<open>Reading tags off a W3C record\<close>

text \<open>JavaScript truthiness of a property read: a missing property reads \<^verbatim>\<open>undefined\<close>.\<close>

fun truthy :: "tag_value option \<Rightarrow> bool" where
  "truthy None = False"
| "truthy (Some (TagString s)) = (s \<noteq> [])"
| "truthy (Some (TagBoolean b)) = b"
| "truthy (Some (TagStrings xs)) = True"
| "truthy (Some TagUndefined) = False"
| "truthy (Some TagNull) = False"

definition startsWith :: "string \<Rightarrow> string \<Rightarrow> bool" where
  "startsWith key p = (take (length p) key = p)"

definition getAnonCredsTagsFromRecord :: "W3cCredentialRecord \<Rightarrow> tag_map option" where
  "getAnonCredsTagsFromRecord record =
     (case anoncredsMetadata record of
        None \<Rightarrow> None
      | Some _ \<Rightarrow>
          (let tags = w3c_tags record in
           if \<not> truthy (tags ''anonCredsLinkSecretId'') \<or>
              \<not> truthy (tags ''anonCredsMethodName'') \<or>
              \<not> truthy (tags ''anonCredsSchemaId'') \<or>
              \<not> truthy (tags ''anonCredsSchemaName'') \<or>
              \<not> truthy (tags ''anonCredsSchemaVersion'') \<or>
              \<not> truthy (tags ''anonCredsSchemaIssuerId'') \<or>
              \<not> truthy (tags ''anonCredsCredentialDefinitionId'')
           then None
           else Some (\<lambda>key. if startsWith key ''anonCreds'' then tags key else None)))"

text \<open>A property read, and \<^verbatim>\<open>?? null\<close> on its result.\<close>

definition tag_get :: "tag_map \<Rightarrow> string \<Rightarrow> tag_value" where
  "tag_get t key = (case t key of None \<Rightarrow> TagUndefined | Some v \<Rightarrow> v)"

fun or_null :: "tag_value \<Rightarrow> tag_value" where
  "or_null TagUndefined = TagNull"
| "or_null v = v"

definition claims_or_empty :: "claims option \<Rightarrow> claims" where
  "claims_or_empty c = (case c of None \<Rightarrow> [] | Some cs \<Rightarrow> cs)"

definition anoncredsCredentialInfoFromW3cRecord ::
  "W3cCredentialRecord \<Rightarrow> error + AnonCredsCredentialInfo" where
  "anoncredsCredentialInfoFromW3cRecord w3cCredentialRecord =
     (case credentialSubject (w3c_credential w3cCredentialRecord) of
        SubjectArray _ \<Rightarrow> Inl MalformedCredentialSubject
      | SubjectObject subject_claims \<Rightarrow>
          (case getAnonCredsTagsFromRecord w3cCredentialRecord of
             None \<Rightarrow> Inl MissingTags
           | Some anonCredsTags \<Rightarrow>
               (case anoncredsMetadata w3cCredentialRecord of
                  None \<Rightarrow> Inl MissingMetadata
                | Some anoncredsCredentialMetadata \<Rightarrow> Inr \<lparr>
                    attributes = (\<lambda>key. map_option AttributeValue
                                          (map_of (claims_or_empty subject_claims) key)),
                    credentialId = md_credentialId anoncredsCredentialMetadata,
                    credentialDefinitionId = tag_get anonCredsTags ''anonCredsCredentialDefinitionId'',
                    schemaId = tag_get anonCredsTags ''anonCredsSchemaId'',
                    credentialRevocationId = md_credentialRevocationId anoncredsCredentialMetadata,
                    revocationRegistryId = or_null (tag_get anonCredsTags ''anonCredsRevocationRegistryId''),
                    methodName = md_methodName anoncredsCredentialMetadata,
                    linkSecretId = md_linkSecretId anoncredsCredentialMetadata \<rparr>)))"

definition getAnoncredsCredentialInfoFromRecord ::
  "CredentialRecord \<Rightarrow> error + AnonCredsCredentialInfo" where
  "getAnoncredsCredentialInfoFromRecord credentialRecord =
     (case credentialRecord of
        W3cRecord r \<Rightarrow> anoncredsCredentialInfoFromW3cRecord r
      | AnonCredsRecord r \<Rightarrow> anoncredsCredentialInfoFromAnoncredsRecord r)"

subsection \<open>Deriving the tags of a W3C record\<close>

record SchemaInfo =
  schema_name :: string
  schema_issuerId :: string
  schema_version :: string

record AnonCredsSchema = SchemaInfo +
  attrNames :: "string list"

record W3cRecordAnonCredsTagsOptions =
  w3cCredentialRecord :: W3cCredentialRecord
  opt_schemaId :: string
  opt_schema :: SchemaInfo
  opt_credentialDefinitionId :: string
  opt_revocationRegistryId :: "string option"
  opt_credentialRevocationId :: "string option"
  opt_linkSecretId :: string
  opt_methodName :: string

text \<open>
  Modelled from the spec: \<^verbatim>\<open>mapAttributeRawValuesToAnonCredsCredentialValues\<close> lives in
  \<^verbatim>\<open>./credential\<close>, which is not part of the sources at hand. The spec has every claim
  of the subject mapped, under its own name, through the raw-value encoder shared with
  issuance; the encoder itself is the parameter \<open>enc\<close>.
\<close>

definition mapAttributeRawValuesToAnonCredsCredentialValues ::
  "(claim_value \<Rightarrow> AnonCredsCredentialValue) \<Rightarrow> claims \<Rightarrow> (string \<times> AnonCredsCredentialValue) list" where
  "mapAttributeRawValuesToAnonCredsCredentialValues enc cs = map (\<lambda>(key, v). (key, enc v)) cs"

text \<open>The template strings \<^verbatim>\<open>`anonCredsAttr::${key}::value`\<close> and \<^verbatim>\<open>`anonCredsAttr::${key}::marker`\<close>.\<close>

definition attrValueKey :: "string \<Rightarrow> string" where
  "attrValueKey key = ''anonCredsAttr::'' @ key @ ''::value''"

definition attrMarkerKey :: "string \<Rightarrow> string" where
  "attrMarkerKey key = ''anonCredsAttr::'' @ key @ ''::marker''"

text \<open>An optional string written into an object literal: the key is there, its value may be \<^verbatim>\<open>undefined\<close>.\<close>

definition optionalTag :: "string option \<Rightarrow> tag_value" where
  "optionalTag v = (case v of None \<Rightarrow> TagUndefined | Some s \<Rightarrow> TagString s)"

text \<open>
  The object that \<^verbatim>\<open>isIndyDid(issuerId) && {...}\<close> spreads into the tags. The helpers
  \<^verbatim>\<open>isIndyDid\<close> and \<^verbatim>\<open>getUnQualifiedDidIndyDid\<close> of \<^verbatim>\<open>./indyIdentifiers\<close> are
  parameters; the second may raise. The properties are evaluated in the order written,
  and \<^verbatim>\<open>revocationRegistryId ? ... : undefined\<close> tests truthiness, so the empty string
  counts as not given.
\<close>

definition unqualifiedTags ::
  "(string \<Rightarrow> bool) \<Rightarrow> (string \<Rightarrow> error + string) \<Rightarrow> W3cRecordAnonCredsTagsOptions \<Rightarrow> error + tag_map" where
  "unqualifiedTags isIndyDid getUnQualifiedDidIndyDid options =
     (if isIndyDid (issuerId (w3c_credential (w3cCredentialRecord options))) then
        bindE (getUnQualifiedDidIndyDid (issuerId (w3c_credential (w3cCredentialRecord options)))) (\<lambda>uIssuer.
        bindE (getUnQualifiedDidIndyDid (opt_credentialDefinitionId options)) (\<lambda>uCredDef.
        bindE (getUnQualifiedDidIndyDid (opt_schemaId options)) (\<lambda>uSchema.
        bindE (getUnQualifiedDidIndyDid (schema_issuerId (opt_schema options))) (\<lambda>uSchemaIssuer.
        bindE (case opt_revocationRegistryId options of
                 None \<Rightarrow> Inr TagUndefined
               | Some revRegId \<Rightarrow>
                   if revRegId \<noteq> []
                   then bindE (getUnQualifiedDidIndyDid revRegId) (\<lambda>u. Inr (TagString u))
                   else Inr TagUndefined) (\<lambda>uRevReg.
        Inr [''anonCredsUnqualifiedIssuerId'' \<mapsto> TagString uIssuer,
             ''anonCredsUnqualifiedCredentialDefinitionId'' \<mapsto> TagString uCredDef,
             ''anonCredsUnqualifiedSchemaId'' \<mapsto> TagString uSchema,
             ''anonCredsUnqualifiedSchemaIssuerId'' \<mapsto> TagString uSchemaIssuer,
             ''anonCredsUnqualifiedRevocationRegistryId'' \<mapsto> uRevReg])))))
      else Inr Map.empty)"

definition structuralTags :: "W3cRecordAnonCredsTagsOptions \<Rightarrow> tag_map" where
  "structuralTags options =
     [''anonCredsLinkSecretId'' \<mapsto> TagString (opt_linkSecretId options),
      ''anonCredsCredentialDefinitionId'' \<mapsto> TagString (opt_credentialDefinitionId options),
      ''anonCredsSchemaId'' \<mapsto> TagString (opt_schemaId options),
      ''anonCredsSchemaName'' \<mapsto> TagString (schema_name (opt_schema options)),
      ''anonCredsSchemaIssuerId'' \<mapsto> TagString (schema_issuerId (opt_schema options)),
      ''anonCredsSchemaVersion'' \<mapsto> TagString (schema_version (opt_schema options)),
      ''anonCredsMethodName'' \<mapsto> TagString (opt_methodName options),
      ''anonCredsRevocationRegistryId'' \<mapsto> optionalTag (opt_revocationRegistryId options),
      ''anonCredsCredentialRevocationId'' \<mapsto> optionalTag (opt_credentialRevocationId options)]"

text \<open>The loop over \<^verbatim>\<open>Object.entries(values)\<close>, one step per entry.\<close>

fun attributeTags :: "(string \<times> AnonCredsCredentialValue) list \<Rightarrow> tag_map \<Rightarrow> tag_map" where
  "attributeTags [] tags = tags"
| "attributeTags ((key, v) # entries) tags =
     attributeTags entries
       (tags(attrValueKey key \<mapsto> TagString (raw v), attrMarkerKey key \<mapsto> TagBoolean True))"

text \<open>
  The object literal is built first (and with it the unqualified mirror); only then is the
  subject tested for being an array.
\<close>

definition getW3cRecordAnonCredsTags ::
  "(string \<Rightarrow> bool) \<Rightarrow> (string \<Rightarrow> error + string) \<Rightarrow> (claim_value \<Rightarrow> AnonCredsCredentialValue)
     \<Rightarrow> W3cRecordAnonCredsTagsOptions \<Rightarrow> error + tag_map" where
  "getW3cRecordAnonCredsTags isIndyDid getUnQualifiedDidIndyDid enc options =
     bindE (unqualifiedTags isIndyDid getUnQualifiedDidIndyDid options) (\<lambda>mirror.
       let anonCredsCredentialRecordTags = structuralTags options ++ mirror in
       case credentialSubject (w3c_credential (w3cCredentialRecord options)) of
         SubjectArray _ \<Rightarrow> Inl MalformedCredentialSubject
       | SubjectObject subject_claims \<Rightarrow>
           Inr (attributeTags
                  (mapAttributeRawValuesToAnonCredsCredentialValues enc (claims_or_empty subject_claims))
                  anonCredsCredentialRecordTags))"

subsection \<open>Normalising the options of a store request\<close>

text \<open>
  The predicates and qualifiers imported from \<^verbatim>\<open>./indyIdentifiers\<close>, as a record of
  functions. The namespace argument is optional in the source
  (\<^verbatim>\<open>indyNamespace as string\<close>). Credential definitions and revocation registry
  definitions are opaque here.
\<close>

record ('cd, 'rrd) IndyQualifier =
  isUnqualifiedCredentialDefinitionId :: "string \<Rightarrow> bool"
  isUnqualifiedRevocationRegistryId :: "string \<Rightarrow> bool"
  isUnqualifiedDidIndyCredentialDefinition :: "'cd \<Rightarrow> bool"
  isUnqualifiedDidIndySchema :: "AnonCredsSchema \<Rightarrow> bool"
  isUnqualifiedDidIndyRevocationRegistryDefinition :: "'rrd \<Rightarrow> bool"
  getQualifiedDidIndyDid :: "string \<Rightarrow> string option \<Rightarrow> error + string"
  getQualifiedDidIndyCredentialDefinition :: "'cd \<Rightarrow> string option \<Rightarrow> error + 'cd"
  getQualifiedDidIndySchema :: "AnonCredsSchema \<Rightarrow> string option \<Rightarrow> error + AnonCredsSchema"
  getQualifiedDidIndyRevocationRegistryDefinition :: "'rrd \<Rightarrow> string option \<Rightarrow> error + 'rrd"

record 'rrd RevocationRegistry =
  rr_definition :: 'rrd
  rr_id :: string

record ('m, 'c, 'cd, 'rrd) StoreCredentialOptions =
  so_credentialId :: "string option"
  so_credentialRequestMetadata :: 'm
  so_credential :: 'c
  so_credentialDefinitionId :: string
  so_credentialDefinition :: 'cd
  so_schema :: AnonCredsSchema
  so_revocationRegistry :: "'rrd RevocationRegistry option"

text \<open>
  \<open>uuid\<close> is the value \<^verbatim>\<open>utils.uuid()\<close> returns in this call. The
  \<^verbatim>\<open>definition\<close> of a revocation registry is an object, so
  \<^verbatim>\<open>revocationRegistry?.definition\<close> is truthy exactly when the registry is given.
\<close>

definition getStoreCredentialOptions ::
  "('cd, 'rrd) IndyQualifier \<Rightarrow> string \<Rightarrow> ('m, 'c, 'cd, 'rrd) StoreCredentialOptions \<Rightarrow> string option
     \<Rightarrow> error + ('m, 'c, 'cd, 'rrd) StoreCredentialOptions" where
  "getStoreCredentialOptions q uuid options indyNamespace =
     bindE (if isUnqualifiedCredentialDefinitionId q (so_credentialDefinitionId options)
            then getQualifiedDidIndyDid q (so_credentialDefinitionId options) indyNamespace
            else Inr (so_credentialDefinitionId options)) (\<lambda>credentialDefinitionId'.
     bindE (if isUnqualifiedDidIndyCredentialDefinition q (so_credentialDefinition options)
            then getQualifiedDidIndyCredentialDefinition q (so_credentialDefinition options) indyNamespace
            else Inr (so_credentialDefinition options)) (\<lambda>credentialDefinition'.
     bindE (if isUnqualifiedDidIndySchema q (so_schema options)
            then getQualifiedDidIndySchema q (so_schema options) indyNamespace
            else Inr (so_schema options)) (\<lambda>schema'.
     bindE (case so_revocationRegistry options of
              None \<Rightarrow> Inr None
            | Some revocationRegistry \<Rightarrow>
                bindE (if isUnqualifiedDidIndyRevocationRegistryDefinition q (rr_definition revocationRegistry)
                       then getQualifiedDidIndyRevocationRegistryDefinition q (rr_definition revocationRegistry) indyNamespace
                       else Inr (rr_definition revocationRegistry)) (\<lambda>definition'.
                bindE (if isUnqualifiedRevocationRegistryId q (rr_id revocationRegistry)
                       then getQualifiedDidIndyDid q (rr_id revocationRegistry) indyNamespace
                       else Inr (rr_id revocationRegistry)) (\<lambda>id'.
                Inr (Some \<lparr> rr_definition = definition', rr_id = id' \<rparr>)))) (\<lambda>revocationRegistry'.
     Inr \<lparr> so_credentialId = Some uuid,
           so_credentialRequestMetadata = so_credentialRequestMetadata options,
           so_credential = so_credential options,
           so_credentialDefinitionId = credentialDefinitionId',
           so_credentialDefinition = credentialDefinition',
           so_schema = schema',
           so_revocationRegistry = revocationRegistry' \<rparr>))))"

subsection \<open>Vocabulary of the properties\<close>

text \<open>The seven tags every record tagged by this scheme carries, and the five mirror tags.\<close>

definition requiredTagKeys :: "string list" where
  "requiredTagKeys =
     [''anonCredsLinkSecretId'', ''anonCredsMethodName'', ''anonCredsSchemaId'',
      ''anonCredsSchemaName'', ''anonCredsSchemaVersion'', ''anonCredsSchemaIssuerId'',
      ''anonCredsCredentialDefinitionId'']"

definition mirrorTagKeys :: "string list" where
  "mirrorTagKeys =
     [''anonCredsUnqualifiedIssuerId'', ''anonCredsUnqualifiedCredentialDefinitionId'',
      ''anonCredsUnqualifiedSchemaId'', ''anonCredsUnqualifiedSchemaIssuerId'',
      ''anonCredsUnqualifiedRevocationRegistryId'']"

text \<open>\<^verbatim>\<open>Array.isArray\<close> on a credential subject, and the claim names of a subject.\<close>

fun isArray :: "credentialSubject \<Rightarrow> bool" where
  "isArray (SubjectArray _) = True"
| "isArray (SubjectObject _) = False"

fun claimNames :: "credentialSubject \<Rightarrow> string set" where
  "claimNames (SubjectObject c) = fst ` set (claims_or_empty c)"
| "claimNames (SubjectArray _) = {}"

text \<open>
  The identifiers handed to \<^verbatim>\<open>getUnQualifiedDidIndyDid\<close> when the issuer is an indy
  DID, in the order of the calls.
\<close>

definition mirrorInputs :: "W3cRecordAnonCredsTagsOptions \<Rightarrow> string list" where
  "mirrorInputs options =
     [issuerId (w3c_credential (w3cCredentialRecord options)),
      opt_credentialDefinitionId options,
      opt_schemaId options,
      schema_issuerId (opt_schema options)]
     @ (case opt_revocationRegistryId options of
          None \<Rightarrow> []
        | Some r \<Rightarrow> if r \<noteq> [] then [r] else [])"

text \<open>
  The error of the first call that raises, when the helper is called on the identifiers in
  turn; and the error that building the mirror raises, if any.
\<close>

fun firstError :: "(string \<Rightarrow> error + string) \<Rightarrow> string list \<Rightarrow> error option" where
  "firstError unq [] = None"
| "firstError unq (i # is) = (case unq i of Inl e \<Rightarrow> Some e | Inr _ \<Rightarrow> firstError unq is)"

definition mirrorError ::
  "(string \<Rightarrow> bool) \<Rightarrow> (string \<Rightarrow> error + string) \<Rightarrow> W3cRecordAnonCredsTagsOptions \<Rightarrow> error option" where
  "mirrorError isIndyDid getUnQualifiedDidIndyDid options =
     (if isIndyDid (issuerId (w3c_credential (w3cCredentialRecord options)))
      then firstError getUnQualifiedDidIndyDid (mirrorInputs options)
      else None)"

text \<open>
  The mirror can be built: when the issuer is an indy DID, every identifier to be mirrored
  can be unqualified. A derivation context is valid when the derivation goes through: the
  subject is a single object and the mirror can be built.
\<close>

definition mirrorable ::
  "(string \<Rightarrow> bool) \<Rightarrow> (string \<Rightarrow> error + string) \<Rightarrow> W3cRecordAnonCredsTagsOptions \<Rightarrow> bool" where
  "mirrorable isIndyDid getUnQualifiedDidIndyDid options \<longleftrightarrow>
     (isIndyDid (issuerId (w3c_credential (w3cCredentialRecord options))) \<longrightarrow>
        list_all (\<lambda>i. \<not> isl (getUnQualifiedDidIndyDid i)) (mirrorInputs options))"

definition validContext ::
  "(string \<Rightarrow> bool) \<Rightarrow> (string \<Rightarrow> error + string) \<Rightarrow> W3cRecordAnonCredsTagsOptions \<Rightarrow> bool" where
  "validContext isIndyDid getUnQualifiedDidIndyDid options \<longleftrightarrow>
     \<not> isArray (credentialSubject (w3c_credential (w3cCredentialRecord options))) \<and>
     mirrorable isIndyDid getUnQualifiedDidIndyDid options"

text \<open>
  The credential definition id, the credential definition, the schema and the revocation
  registry id of a store request are in qualified form: none of them is recognised as
  unqualified.
\<close>

definition alreadyQualified ::
  "('cd, 'rrd) IndyQualifier \<Rightarrow> ('m, 'c, 'cd, 'rrd) StoreCredentialOptions \<Rightarrow> bool" where
  "alreadyQualified q options \<longleftrightarrow>
     \<not> isUnqualifiedCredentialDefinitionId q (so_credentialDefinitionId options) \<and>
     \<not> isUnqualifiedDidIndyCredentialDefinition q (so_credentialDefinition options) \<and>
     \<not> isUnqualifiedDidIndySchema q (so_schema options) \<and>
     (case so_revocationRegistry options of
        None \<Rightarrow> True
      | Some revocationRegistry \<Rightarrow> \<not> isUnqualifiedRevocationRegistryId q (rr_id revocationRegistry))"

text \<open>
  The definition of the revocation registry, when a registry is given, is in qualified
  form too.
\<close>

definition definitionQualified ::
  "('cd, 'rrd) IndyQualifier \<Rightarrow> ('m, 'c, 'cd, 'rrd) StoreCredentialOptions \<Rightarrow> bool" where
  "definitionQualified q options \<longleftrightarrow>
     (case so_revocationRegistry options of
        None \<Rightarrow> True
      | Some revocationRegistry \<Rightarrow>
          \<not> isUnqualifiedDidIndyRevocationRegistryDefinition q (rr_definition revocationRegistry))"

text \<open>The four identifier fields named above agree in two store requests.\<close>

definition sameIdentifierFields ::
  "('m, 'c, 'cd, 'rrd) StoreCredentialOptions \<Rightarrow> ('m, 'c, 'cd, 'rrd) StoreCredentialOptions \<Rightarrow> bool" where
  "sameIdentifierFields a b \<longleftrightarrow>
     so_credentialDefinitionId a = so_credentialDefinitionId b \<and>
     so_credentialDefinition a = so_credentialDefinition b \<and>
     so_schema a = so_schema b \<and>
     map_option rr_id (so_revocationRegistry a) = map_option rr_id (so_revocationRegistry b)"

text \<open>The keys with a fixed name: required, revocation and mirror keys.\<close>

definition fixedTagKeys :: "string set" where
  "fixedTagKeys = set requiredTagKeys
     \<union> {''anonCredsRevocationRegistryId'', ''anonCredsCredentialRevocationId''}
     \<union> set mirrorTagKeys"

text \<open>
  What a valid context puts under the mirror keys: the unqualified form of each
  identifier, and \<^verbatim>\<open>undefined\<close> under the registry mirror when no registry id is given.
\<close>

definition revRegMirror :: "(string \<Rightarrow> error + string) \<Rightarrow> string option \<Rightarrow> tag_value" where
  "revRegMirror unq r =
     (case r of
        None \<Rightarrow> TagUndefined
      | Some i \<Rightarrow> if i \<noteq> [] then TagString (projr (unq i)) else TagUndefined)"

definition mirrorTags ::
  "(string \<Rightarrow> bool) \<Rightarrow> (string \<Rightarrow> error + string) \<Rightarrow> W3cRecordAnonCredsTagsOptions \<Rightarrow> tag_map" where
  "mirrorTags isIndyDid unq options =
     (if isIndyDid (issuerId (w3c_credential (w3cCredentialRecord options))) then
        [''anonCredsUnqualifiedIssuerId'' \<mapsto> TagString (projr (unq (issuerId (w3c_credential (w3cCredentialRecord options))))),
         ''anonCredsUnqualifiedCredentialDefinitionId'' \<mapsto> TagString (projr (unq (opt_credentialDefinitionId options))),
         ''anonCredsUnqualifiedSchemaId'' \<mapsto> TagString (projr (unq (opt_schemaId options))),
         ''anonCredsUnqualifiedSchemaIssuerId'' \<mapsto> TagString (projr (unq (schema_issuerId (opt_schema options)))),
         ''anonCredsUnqualifiedRevocationRegistryId'' \<mapsto> revRegMirror unq (opt_revocationRegistryId options)]
      else Map.empty)"

subsection \<open>Helpers and records for the examples\<close>

text \<open>
  Modelled from the spec: \<^verbatim>\<open>isIndyDid\<close> and \<^verbatim>\<open>getUnQualifiedDidIndyDid\<close> live in
  \<^verbatim>\<open>./indyIdentifiers\<close>, which is not part of the sources at hand. By the spec a
  qualified identifier reads \<^verbatim>\<open><scheme>:<method>:<namespace>:<specific-id>\<close>,
  unqualifying drops the method and namespace segments, and it is defined only for the
  method \<^verbatim>\<open>indy\<close>, an error for any other. These two instances are used for the examples;
  the general statements hold for any pair of helpers.
\<close>

definition spec_isIndyDid :: "string \<Rightarrow> bool" where
  "spec_isIndyDid identifier = startsWith identifier ''did:indy:''"

definition spec_getUnQualifiedDidIndyDid :: "string \<Rightarrow> error + string" where
  "spec_getUnQualifiedDidIndyDid identifier =
     (if startsWith identifier ''did:indy:''
      then Inr (drop 1 (dropWhile (\<lambda>c. c \<noteq> CHR '':'') (drop 9 identifier)))
      else Inl InvalidIdentifier)"

text \<open>
  An encoder for the examples: the raw value of a claim is its string form (the string
  itself, \<^verbatim>\<open>true\<close> or \<^verbatim>\<open>false\<close>, the decimal digits). No function here reads
  \<open>encoded\<close>; the examples leave it equal to the raw value.
\<close>

fun decimal :: "nat \<Rightarrow> string" where
  "decimal n =
     (if n < 10 then [''0123456789'' ! n]
      else decimal (n div 10) @ [''0123456789'' ! (n mod 10)])"

fun example_raw :: "claim_value \<Rightarrow> string" where
  "example_raw (ClaimString s) = s"
| "example_raw (ClaimBoolean b) = (if b then ''true'' else ''false'')"
| "example_raw (ClaimNumber n) = (if n < 0 then ''-'' @ decimal (nat (- n)) else decimal (nat n))"

definition example_encoder :: "claim_value \<Rightarrow> AnonCredsCredentialValue" where
  "example_encoder v = \<lparr> raw = example_raw v, encoded = example_raw v \<rparr>"

text \<open>A native record as issuance leaves it: one attribute, \<^verbatim>\<open>name = "Alice"\<close>.\<close>

definition example_credential :: AnonCredsCredential where
  "example_credential = \<lparr>
     schema_id = ''did:indy:sovrin:XYZ/anoncreds/v0/SCHEMA/degree/1.0'',
     cred_def_id = ''did:indy:sovrin:XYZ/anoncreds/v0/CLAIM_DEF/7/default'',
     rev_reg_id = KeyAbsent,
     cred_values = [(''name'', \<lparr> raw = ''Alice'', encoded = ''1'' \<rparr>)],
     other_keys = [''signature'', ''signature_correctness_proof''] \<rparr>"

definition example_native_record :: AnonCredsCredentialRecord where
  "example_native_record = \<lparr>
     rec_credential = example_credential,
     rec_credentialId = ''c0ffee'',
     rec_credentialRevocationId = None,
     rec_methodName = ''indy'',
     rec_linkSecretId = ''link-secret-1'' \<rparr>"

text \<open>
  A native record whose value table happens to carry an attribute under every key of the
  credential object.
\<close>

definition example_shadowing_record :: AnonCredsCredentialRecord where
  "example_shadowing_record = \<lparr>
     rec_credential = \<lparr>
       schema_id = ''did:indy:sovrin:XYZ/anoncreds/v0/SCHEMA/degree/1.0'',
       cred_def_id = ''did:indy:sovrin:XYZ/anoncreds/v0/CLAIM_DEF/7/default'',
       rev_reg_id = KeyAbsent,
       cred_values = [(''schema_id'', \<lparr> raw = ''a'', encoded = ''1'' \<rparr>),
                      (''cred_def_id'', \<lparr> raw = ''b'', encoded = ''2'' \<rparr>),
                      (''values'', \<lparr> raw = ''c'', encoded = ''3'' \<rparr>),
                      (''name'', \<lparr> raw = ''Alice'', encoded = ''4'' \<rparr>)],
       other_keys = [] \<rparr>,
     rec_credentialId = ''c0ffee'',
     rec_credentialRevocationId = None,
     rec_methodName = ''indy'',
     rec_linkSecretId = ''link-secret-1'' \<rparr>"

text \<open>
  A native record whose credential carries an own key \<^verbatim>\<open>constructor\<close>, for which the
  value table has no entry; and one whose \<^verbatim>\<open>rev_reg_id\<close> is there with the value
  \<^verbatim>\<open>null\<close>.
\<close>

definition example_inherited_key_record :: AnonCredsCredentialRecord where
  "example_inherited_key_record = \<lparr>
     rec_credential = \<lparr>
       schema_id = ''did:indy:sovrin:XYZ/anoncreds/v0/SCHEMA/degree/1.0'',
       cred_def_id = ''did:indy:sovrin:XYZ/anoncreds/v0/CLAIM_DEF/7/default'',
       rev_reg_id = KeyAbsent,
       cred_values = [(''schema_id'', \<lparr> raw = ''a'', encoded = ''1'' \<rparr>),
                      (''cred_def_id'', \<lparr> raw = ''b'', encoded = ''2'' \<rparr>),
                      (''values'', \<lparr> raw = ''c'', encoded = ''3'' \<rparr>)],
       other_keys = [''constructor''] \<rparr>,
     rec_credentialId = ''c0ffee'',
     rec_credentialRevocationId = None,
     rec_methodName = ''indy'',
     rec_linkSecretId = ''link-secret-1'' \<rparr>"

definition example_null_registry_record :: AnonCredsCredentialRecord where
  "example_null_registry_record = example_shadowing_record \<lparr>
     rec_credential := rec_credential example_shadowing_record \<lparr> rev_reg_id := KeyNullish \<rparr> \<rparr>"

text \<open>The same credential as a W3C record, with its side-table entry and its tags.\<close>

definition example_tags :: tag_map where
  "example_tags =
     [''anonCredsLinkSecretId'' \<mapsto> TagString ''link-secret-1'',
      ''anonCredsMethodName'' \<mapsto> TagString ''indy'',
      ''anonCredsSchemaId'' \<mapsto> TagString ''did:indy:sovrin:XYZ/anoncreds/v0/SCHEMA/degree/1.0'',
      ''anonCredsSchemaName'' \<mapsto> TagString ''degree'',
      ''anonCredsSchemaVersion'' \<mapsto> TagString ''1.0'',
      ''anonCredsSchemaIssuerId'' \<mapsto> TagString ''did:indy:sovrin:XYZ'',
      ''anonCredsCredentialDefinitionId'' \<mapsto> TagString ''did:indy:sovrin:XYZ/anoncreds/v0/CLAIM_DEF/7/default'',
      ''anonCredsAttr::name::value'' \<mapsto> TagString ''Alice'',
      ''anonCredsAttr::name::marker'' \<mapsto> TagBoolean True,
      ''issuerId'' \<mapsto> TagString ''did:indy:sovrin:XYZ'',
      ''types'' \<mapsto> TagStrings [''VerifiableCredential'']]"

definition example_metadata :: W3cAnoncredsCredentialMetadata where
  "example_metadata = \<lparr>
     md_credentialId = ''c0ffee'',
     md_methodName = ''indy'',
     md_credentialRevocationId = None,
     md_linkSecretId = ''link-secret-1'' \<rparr>"

definition example_w3c_record :: W3cCredentialRecord where
  "example_w3c_record = \<lparr>
     w3c_credential = \<lparr>
       issuerId = ''did:indy:sovrin:XYZ'',
       credentialSubject = SubjectObject (Some [(''name'', ClaimString ''Alice'')]) \<rparr>,
     anoncredsMetadata = Some example_metadata,
     w3c_tags = example_tags \<rparr>"

text \<open>Variations: no side-table entry; an empty required tag; a subject that is an array.\<close>

definition example_w3c_no_metadata :: W3cCredentialRecord where
  "example_w3c_no_metadata = example_w3c_record \<lparr> anoncredsMetadata := None \<rparr>"

definition example_w3c_empty_tag :: W3cCredentialRecord where
  "example_w3c_empty_tag =
     example_w3c_record \<lparr> w3c_tags := example_tags(''anonCredsSchemaName'' \<mapsto> TagString []) \<rparr>"

definition example_w3c_array_subject :: W3cCredentialRecord where
  "example_w3c_array_subject =
     example_w3c_record \<lparr> w3c_credential := \<lparr>
       issuerId = ''did:indy:sovrin:XYZ'',
       credentialSubject = SubjectArray [Some [(''name'', ClaimString ''Alice'')],
                                         Some [(''name'', ClaimString ''Bob'')]] \<rparr> \<rparr>"

definition example_w3c_array_empty_tag :: W3cCredentialRecord where
  "example_w3c_array_empty_tag =
     example_w3c_array_subject \<lparr> w3c_tags := example_tags(''anonCredsLinkSecretId'' \<mapsto> TagString []) \<rparr>"

text \<open>Derivation contexts: an indy issuer, and a \<^verbatim>\<open>did:web\<close> issuer; neither is revocable.\<close>

definition example_options :: W3cRecordAnonCredsTagsOptions where
  "example_options = \<lparr>
     w3cCredentialRecord = example_w3c_record,
     opt_schemaId = ''did:indy:sovrin:XYZ/anoncreds/v0/SCHEMA/degree/1.0'',
     opt_schema = \<lparr> schema_name = ''degree'', schema_issuerId = ''did:indy:sovrin:XYZ'', schema_version = ''1.0'' \<rparr>,
     opt_credentialDefinitionId = ''did:indy:sovrin:XYZ/anoncreds/v0/CLAIM_DEF/7/default'',
     opt_revocationRegistryId = None,
     opt_credentialRevocationId = None,
     opt_linkSecretId = ''link-secret-1'',
     opt_methodName = ''indy'' \<rparr>"

definition example_web_options :: W3cRecordAnonCredsTagsOptions where
  "example_web_options = \<lparr>
     w3cCredentialRecord = example_w3c_record \<lparr> w3c_credential := \<lparr>
       issuerId = ''did:web:example.org'',
       credentialSubject = SubjectObject (Some [(''name'', ClaimString ''Alice'')]) \<rparr> \<rparr>,
     opt_schemaId = ''did:web:example.org/anoncreds/v0/SCHEMA/degree/1.0'',
     opt_schema = \<lparr> schema_name = ''degree'', schema_issuerId = ''did:web:example.org'', schema_version = ''1.0'' \<rparr>,
     opt_credentialDefinitionId = ''did:web:example.org/anoncreds/v0/CLAIM_DEF/7/default'',
     opt_revocationRegistryId = None,
     opt_credentialRevocationId = None,
     opt_linkSecretId = ''link-secret-1'',
     opt_methodName = ''web'' \<rparr>"

text \<open>
  An array subject in a context whose credential definition id is not an indy identifier
  while the issuer is.
\<close>

definition example_array_options :: W3cRecordAnonCredsTagsOptions where
  "example_array_options = example_options \<lparr>
     w3cCredentialRecord := example_w3c_array_subject,
     opt_credentialDefinitionId := ''did:web:example.org/anoncreds/v0/CLAIM_DEF/7/default'' \<rparr>"

text \<open>The same mix of identifiers with a subject that is a single object.\<close>

definition example_mixed_options :: W3cRecordAnonCredsTagsOptions where
  "example_mixed_options = example_options \<lparr>
     opt_credentialDefinitionId := ''did:web:example.org/anoncreds/v0/CLAIM_DEF/7/default'' \<rparr>"

text \<open>An array subject in a context where every identifier is an indy identifier.\<close>

definition example_array_indy_options :: W3cRecordAnonCredsTagsOptions where
  "example_array_indy_options = example_options \<lparr> w3cCredentialRecord := example_w3c_array_subject \<rparr>"

text \<open>
  Modelled from the spec: the predicates and qualifiers of \<^verbatim>\<open>./indyIdentifiers\<close> are
  not part of the sources at hand. By the spec an unqualified identifier is a bare one,
  without method and namespace prefix, and qualifying inserts the method and the
  namespace, which the caller must supply. In this instance for the examples a credential
  definition and a revocation registry definition are stood for by their issuer id.
\<close>

definition spec_isUnqualified :: "string \<Rightarrow> bool" where
  "spec_isUnqualified identifier = (\<not> startsWith identifier ''did:'')"

definition spec_getQualifiedDidIndyDid :: "string \<Rightarrow> string option \<Rightarrow> error + string" where
  "spec_getQualifiedDidIndyDid identifier indyNamespace =
     (case indyNamespace of
        None \<Rightarrow> Inl InvalidIdentifier
      | Some namespace \<Rightarrow> Inr (''did:indy:'' @ namespace @ '':'' @ identifier))"

definition example_qualifier :: "(string, string) IndyQualifier" where
  "example_qualifier = \<lparr>
     isUnqualifiedCredentialDefinitionId = spec_isUnqualified,
     isUnqualifiedRevocationRegistryId = spec_isUnqualified,
     isUnqualifiedDidIndyCredentialDefinition = spec_isUnqualified,
     isUnqualifiedDidIndySchema = (\<lambda>schema. spec_isUnqualified (schema_issuerId schema)),
     isUnqualifiedDidIndyRevocationRegistryDefinition = spec_isUnqualified,
     getQualifiedDidIndyDid = spec_getQualifiedDidIndyDid,
     getQualifiedDidIndyCredentialDefinition = spec_getQualifiedDidIndyDid,
     getQualifiedDidIndySchema = (\<lambda>schema indyNamespace.
       bindE (spec_getQualifiedDidIndyDid (schema_issuerId schema) indyNamespace)
         (\<lambda>i. Inr (schema \<lparr> schema_issuerId := i \<rparr>))),
     getQualifiedDidIndyRevocationRegistryDefinition = spec_getQualifiedDidIndyDid \<rparr>"

definition example_store_options :: "(unit, unit, string, string) StoreCredentialOptions" where
  "example_store_options = \<lparr>
     so_credentialId = None,
     so_credentialRequestMetadata = (),
     so_credential = (),
     so_credentialDefinitionId = ''did:indy:sovrin:XYZ/anoncreds/v0/CLAIM_DEF/7/default'',
     so_credentialDefinition = ''did:indy:sovrin:XYZ'',
     so_schema = \<lparr> schema_name = ''degree'', schema_issuerId = ''did:indy:sovrin:XYZ'',
                   schema_version = ''1.0'', attrNames = [''name''] \<rparr>,
     so_revocationRegistry = Some \<lparr>
       rr_definition = ''did:indy:sovrin:XYZ'',
       rr_id = ''did:indy:sovrin:XYZ/anoncreds/v0/REV_REG_DEF/7/default/r1'' \<rparr> \<rparr>"

text \<open>The same request with the registry's definition still in its legacy form.\<close>

definition example_store_options_legacy_definition ::
  "(unit, unit, string, string) StoreCredentialOptions" where
  "example_store_options_legacy_definition = example_store_options \<lparr>
     so_revocationRegistry := Some \<lparr>
       rr_definition = ''XYZ'',
       rr_id = ''did:indy:sovrin:XYZ/anoncreds/v0/REV_REG_DEF/7/default/r1'' \<rparr> \<rparr>"

section \<open>Properties\<close>

subsection \<open>Projection of a native record\<close>

text \<open>
  What the loop returns: it goes through exactly when every key it visits is an own key of
  the value table or the name of a property of \<^verbatim>\<open>Object.prototype\<close>, and then the
  result maps each visited key (\<^verbatim>\<open>__proto__\<close> apart) to the raw value of its entry,
  or to \<^verbatim>\<open>undefined\<close> when the key has no entry.
\<close>

lemma collect_attributes_char:
  "collect_attributes vs ks acc =
     (if \<forall>k \<in> set ks. k \<in> fst ` set vs \<or> k \<in> set objectPrototypeKeys
      then Inr (\<lambda>k. if k \<in> set ks \<and> k \<noteq> ''__proto__''
                     then Some (case map_of vs k of
                                  Some v \<Rightarrow> AttributeValue (ClaimString (raw v))
                                | None \<Rightarrow> AttributeUndefined)
                     else acc k)
      else Inl TypeError)"
proof (induction ks arbitrary: acc)
  case Nil
  then show ?case by simp
next
  case (Cons k ks)
  show ?case
  proof (cases "map_of vs k")
    case None
    then have k: "k \<notin> fst ` set vs" by (simp add: map_of_eq_None_iff)
    show ?thesis
    proof (cases "k \<in> set objectPrototypeKeys")
      case True
      with None k show ?thesis
        by (auto simp: Cons.IH fun_eq_iff assign_attribute_def)
    next
      case False
      with None k show ?thesis by simp
    qed
  next
    case (Some v)
    then have "k \<in> fst ` set vs" by (metis map_of_eq_None_iff option.distinct(1))
    with Some show ?thesis
      by (auto simp: Cons.IH fun_eq_iff assign_attribute_def)
  qed
qed

lemma own_keys_not_inherited:
  "''schema_id'' \<notin> set objectPrototypeKeys" "''cred_def_id'' \<notin> set objectPrototypeKeys"
  "''values'' \<notin> set objectPrototypeKeys" "''rev_reg_id'' \<notin> set objectPrototypeKeys"
  by (simp_all add: objectPrototypeKeys_def)

lemma native_projection_returns_iff:
  "(\<exists>info. anoncredsCredentialInfoFromAnoncredsRecord r = Inr info) =
     (\<forall>k \<in> set (credential_keys (rec_credential r)).
         k \<in> fst ` set (cred_values (rec_credential r)) \<or> k \<in> set objectPrototypeKeys)"
  by (simp add: anoncredsCredentialInfoFromAnoncredsRecord_def bindE_def collect_attributes_char)

lemma native_projection_faults_otherwise:
  "(\<nexists>info. anoncredsCredentialInfoFromAnoncredsRecord r = Inr info) \<Longrightarrow>
   anoncredsCredentialInfoFromAnoncredsRecord r = Inl TypeError"
  by (simp add: anoncredsCredentialInfoFromAnoncredsRecord_def bindE_def collect_attributes_char
      split: if_splits)

text \<open>
  C9, as the claim states it, fails: the credential of the example record carries an own
  key \<^verbatim>\<open>constructor\<close> for which the value table has no entry, and the projection
  returns all the same, with \<^verbatim>\<open>undefined\<close> under that key: the read finds the
  inherited \<^verbatim>\<open>constructor\<close> of the value table.
\<close>

theorem native_projection_returns_on_inherited_key:
  "''constructor'' \<in> set (credential_keys (rec_credential example_inherited_key_record))
   \<and> map_of (cred_values (rec_credential example_inherited_key_record)) ''constructor'' = None
   \<and> anoncredsCredentialInfoFromAnoncredsRecord example_inherited_key_record =
       Inr \<lparr> attributes = [''schema_id'' \<mapsto> AttributeValue (ClaimString ''a''),
                           ''cred_def_id'' \<mapsto> AttributeValue (ClaimString ''b''),
                           ''values'' \<mapsto> AttributeValue (ClaimString ''c''),
                           ''constructor'' \<mapsto> AttributeUndefined],
             credentialId = ''c0ffee'',
             credentialDefinitionId = TagString ''did:indy:sovrin:XYZ/anoncreds/v0/CLAIM_DEF/7/default'',
             schemaId = TagString ''did:indy:sovrin:XYZ/anoncreds/v0/SCHEMA/degree/1.0'',
             credentialRevocationId = None,
             revocationRegistryId = TagNull,
             methodName = ''indy'',
             linkSecretId = ''link-secret-1'' \<rparr>"
  by (simp add: anoncredsCredentialInfoFromAnoncredsRecord_def example_inherited_key_record_def
      credential_keys_def objectPrototypeKeys_def assign_attribute_def bindE_def)

text \<open>
  C9, amended: the keys the loop walks are \<^verbatim>\<open>schema_id\<close>, \<^verbatim>\<open>cred_def_id\<close>,
  \<^verbatim>\<open>values\<close>, \<^verbatim>\<open>rev_reg_id\<close> when that key is there (with whatever value), and
  the other own enumerable keys of the credential object. The projection of a native
  record returns exactly when the value table has an entry under each of the first four
  that is walked, and each other key has an entry or is the name of a property of
  \<^verbatim>\<open>Object.prototype\<close>. When it does not return it faults (a \<open>TypeError\<close>, not one of
  the typed errors); in particular it returns when every walked key has an entry.
\<close>

theorem native_projection_total_iff:
  "(\<exists>info. anoncredsCredentialInfoFromAnoncredsRecord r = Inr info)
     = (''schema_id'' \<in> fst ` set (cred_values (rec_credential r))
        \<and> ''cred_def_id'' \<in> fst ` set (cred_values (rec_credential r))
        \<and> ''values'' \<in> fst ` set (cred_values (rec_credential r))
        \<and> (rev_reg_id (rec_credential r) \<noteq> KeyAbsent \<longrightarrow>
              ''rev_reg_id'' \<in> fst ` set (cred_values (rec_credential r)))
        \<and> (\<forall>k \<in> set (other_keys (rec_credential r)).
              k \<in> fst ` set (cred_values (rec_credential r)) \<or> k \<in> set objectPrototypeKeys))
   \<and> ((\<nexists>info. anoncredsCredentialInfoFromAnoncredsRecord r = Inr info)
        \<longrightarrow> anoncredsCredentialInfoFromAnoncredsRecord r = Inl TypeError)
   \<and> ((\<forall>k \<in> set (credential_keys (rec_credential r)). k \<in> fst ` set (cred_values (rec_credential r)))
        \<longrightarrow> (\<exists>info. anoncredsCredentialInfoFromAnoncredsRecord r = Inr info))"
proof (intro conjI impI)
  show "(\<exists>info. anoncredsCredentialInfoFromAnoncredsRecord r = Inr info)
     = (''schema_id'' \<in> fst ` set (cred_values (rec_credential r))
        \<and> ''cred_def_id'' \<in> fst ` set (cred_values (rec_credential r))
        \<and> ''values'' \<in> fst ` set (cred_values (rec_credential r))
        \<and> (rev_reg_id (rec_credential r) \<noteq> KeyAbsent \<longrightarrow>
              ''rev_reg_id'' \<in> fst ` set (cred_values (rec_credential r)))
        \<and> (\<forall>k \<in> set (other_keys (rec_credential r)).
              k \<in> fst ` set (cred_values (rec_credential r)) \<or> k \<in> set objectPrototypeKeys))"
    unfolding native_projection_returns_iff
    by (cases "rev_reg_id (rec_credential r)")
       (auto simp: credential_keys_def own_keys_not_inherited)
next
  assume "\<nexists>info. anoncredsCredentialInfoFromAnoncredsRecord r = Inr info"
  then show "anoncredsCredentialInfoFromAnoncredsRecord r = Inl TypeError"
    by (rule native_projection_faults_otherwise)
next
  assume "\<forall>k \<in> set (credential_keys (rec_credential r)). k \<in> fst ` set (cred_values (rec_credential r))"
  then show "\<exists>info. anoncredsCredentialInfoFromAnoncredsRecord r = Inr info"
    unfolding native_projection_returns_iff by blast
qed

theorem native_projection_total_iff_witness:
  "(\<exists>info. anoncredsCredentialInfoFromAnoncredsRecord example_shadowing_record = Inr info)
   \<and> anoncredsCredentialInfoFromAnoncredsRecord example_native_record = Inl TypeError
   \<and> anoncredsCredentialInfoFromAnoncredsRecord example_null_registry_record = Inl TypeError"
  using native_projection_total_iff [of example_shadowing_record]
        native_projection_total_iff [of example_native_record]
        native_projection_total_iff [of example_null_registry_record]
  by (simp add: example_shadowing_record_def example_native_record_def example_credential_def
      example_null_registry_record_def credential_keys_def)

text \<open>
  C1 (the code departs from it): the attributes of a native record should be its value
  table read by attribute name. On a record as issuance leaves it, with the one attribute
  \<^verbatim>\<open>name = "Alice"\<close>, the loop walks the keys of the credential object instead of the
  keys of its value table, finds no entry under \<^verbatim>\<open>schema_id\<close> and faults.
\<close>

theorem native_projection_faults_on_issued_record:
  "getAnoncredsCredentialInfoFromRecord (AnonCredsRecord example_native_record) = Inl TypeError"
  by (simp add: getAnoncredsCredentialInfoFromRecord_def anoncredsCredentialInfoFromAnoncredsRecord_def
      example_native_record_def example_credential_def credential_keys_def objectPrototypeKeys_def
      bindE_def)

subsection \<open>Projection of a W3C record\<close>

text \<open>
  C2 (the code departs from it): a W3C record and a native record built from the same
  credential should project to the same info, the credential id apart. The W3C record
  projects to the expected info; the native one faults, for the reason given under C1.
\<close>

theorem projections_differ_on_equivalent_records:
  "getAnoncredsCredentialInfoFromRecord (W3cRecord example_w3c_record) =
     Inr \<lparr> attributes = [''name'' \<mapsto> AttributeValue (ClaimString ''Alice'')],
           credentialId = ''c0ffee'',
           credentialDefinitionId = TagString ''did:indy:sovrin:XYZ/anoncreds/v0/CLAIM_DEF/7/default'',
           schemaId = TagString ''did:indy:sovrin:XYZ/anoncreds/v0/SCHEMA/degree/1.0'',
           credentialRevocationId = None,
           revocationRegistryId = TagNull,
           methodName = ''indy'',
           linkSecretId = ''link-secret-1'' \<rparr>
   \<and> getAnoncredsCredentialInfoFromRecord (AnonCredsRecord example_native_record) = Inl TypeError"
  by (simp add: getAnoncredsCredentialInfoFromRecord_def anoncredsCredentialInfoFromAnoncredsRecord_def
      anoncredsCredentialInfoFromW3cRecord_def getAnonCredsTagsFromRecord_def
      example_w3c_record_def example_tags_def example_metadata_def tag_get_def startsWith_def claims_or_empty_def
      example_native_record_def example_credential_def credential_keys_def objectPrototypeKeys_def
      bindE_def fun_eq_iff)

text \<open>
  The tag helper already answers \<^verbatim>\<open>undefined\<close> when the side-table entry is absent, so
  the later test of the entry never fires: no record makes the projection raise
  \<open>MissingMetadata\<close>.
\<close>

lemma w3c_projection_never_missing_metadata:
  "anoncredsCredentialInfoFromW3cRecord r \<noteq> Inl MissingMetadata"
  by (auto simp: anoncredsCredentialInfoFromW3cRecord_def getAnonCredsTagsFromRecord_def Let_def
      split: credentialSubject.splits option.splits if_splits)

lemma w3c_projection_without_metadata:
  "anoncredsMetadata r = None \<Longrightarrow>
   anoncredsCredentialInfoFromW3cRecord r =
     (if isArray (credentialSubject (w3c_credential r)) then Inl MalformedCredentialSubject else Inl MissingTags)"
  by (auto simp: anoncredsCredentialInfoFromW3cRecord_def getAnonCredsTagsFromRecord_def
      split: credentialSubject.splits)

text \<open>
  C5 (the code departs from it): a W3C record without its side-table entry should make the
  projection raise \<open>MissingMetadata\<close>. On the example record stripped of its entry the
  projection raises \<open>MissingTags\<close>.
\<close>

theorem missing_metadata_reported_as_missing_tags:
  "anoncredsMetadata example_w3c_no_metadata = None \<and>
   getAnoncredsCredentialInfoFromRecord (W3cRecord example_w3c_no_metadata) = Inl MissingTags"
  by (simp add: getAnoncredsCredentialInfoFromRecord_def
      anoncredsCredentialInfoFromW3cRecord_def getAnonCredsTagsFromRecord_def
      example_w3c_no_metadata_def example_w3c_record_def)

subsection \<open>Reading tags off a W3C record\<close>

lemma required_all_truthy:
  "(\<forall>k \<in> set requiredTagKeys. truthy (t k)) =
     (truthy (t ''anonCredsLinkSecretId'') \<and> truthy (t ''anonCredsMethodName'') \<and>
      truthy (t ''anonCredsSchemaId'') \<and> truthy (t ''anonCredsSchemaName'') \<and>
      truthy (t ''anonCredsSchemaVersion'') \<and> truthy (t ''anonCredsSchemaIssuerId'') \<and>
      truthy (t ''anonCredsCredentialDefinitionId''))"
  by (simp add: requiredTagKeys_def)

lemma getAnonCredsTagsFromRecord_char:
  "getAnonCredsTagsFromRecord r =
     (if anoncredsMetadata r \<noteq> None \<and> (\<forall>k \<in> set requiredTagKeys. truthy (w3c_tags r k))
      then Some (\<lambda>key. if startsWith key ''anonCreds'' then w3c_tags r key else None)
      else None)"
  unfolding required_all_truthy
  by (cases "anoncredsMetadata r") (auto simp: getAnonCredsTagsFromRecord_def Let_def)

text \<open>
  C7, as the claim states it, fails: the example record has its side-table entry and all
  seven required keys, one of them holding the empty string, and the helper answers
  absent where the claim promises a filtered mapping.
\<close>

theorem tag_extraction_absent_with_all_keys_present:
  "anoncredsMetadata example_w3c_empty_tag = Some example_metadata
   \<and> w3c_tags example_w3c_empty_tag ''anonCredsLinkSecretId'' \<noteq> None
   \<and> w3c_tags example_w3c_empty_tag ''anonCredsMethodName'' \<noteq> None
   \<and> w3c_tags example_w3c_empty_tag ''anonCredsSchemaId'' \<noteq> None
   \<and> w3c_tags example_w3c_empty_tag ''anonCredsSchemaName'' = Some (TagString [])
   \<and> w3c_tags example_w3c_empty_tag ''anonCredsSchemaVersion'' \<noteq> None
   \<and> w3c_tags example_w3c_empty_tag ''anonCredsSchemaIssuerId'' \<noteq> None
   \<and> w3c_tags example_w3c_empty_tag ''anonCredsCredentialDefinitionId'' \<noteq> None
   \<and> getAnonCredsTagsFromRecord example_w3c_empty_tag = None"
  by (simp add: example_w3c_empty_tag_def example_w3c_record_def example_tags_def
      getAnonCredsTagsFromRecord_def)

text \<open>
  C7, amended: the helper answers absent when the side-table entry is absent, and when
  one of the seven required tags is missing or holds a falsy value (the empty string,
  \<^verbatim>\<open>undefined\<close>, \<^verbatim>\<open>null\<close>, \<^verbatim>\<open>false\<close>); in every other case it returns the
  record's tag mapping restricted to the keys that start with \<^verbatim>\<open>anonCreds\<close>.
\<close>

theorem tag_extraction_absent_or_filtered:
  "(anoncredsMetadata r = None \<longrightarrow> getAnonCredsTagsFromRecord r = None)
   \<and> ((\<exists>k \<in> set requiredTagKeys. \<not> truthy (w3c_tags r k)) \<longrightarrow> getAnonCredsTagsFromRecord r = None)
   \<and> ((\<exists>k \<in> set requiredTagKeys. w3c_tags r k = None) \<longrightarrow> getAnonCredsTagsFromRecord r = None)
   \<and> (anoncredsMetadata r \<noteq> None \<and> (\<forall>k \<in> set requiredTagKeys. truthy (w3c_tags r k)) \<longrightarrow>
        (\<exists>t. getAnonCredsTagsFromRecord r = Some t
           \<and> (\<forall>key \<in> dom t. startsWith key ''anonCreds'')
           \<and> (\<forall>key. t key = (if startsWith key ''anonCreds'' then w3c_tags r key else None))))"
proof (intro conjI impI)
  assume "anoncredsMetadata r = None"
  then show "getAnonCredsTagsFromRecord r = None"
    by (simp add: getAnonCredsTagsFromRecord_char)
next
  assume "\<exists>k \<in> set requiredTagKeys. \<not> truthy (w3c_tags r k)"
  then show "getAnonCredsTagsFromRecord r = None"
    by (auto simp: getAnonCredsTagsFromRecord_char)
next
  assume "\<exists>k \<in> set requiredTagKeys. w3c_tags r k = None"
  then obtain k where "k \<in> set requiredTagKeys" and "w3c_tags r k = None" by blast
  then have "k \<in> set requiredTagKeys" and "\<not> truthy (w3c_tags r k)" by simp_all
  then show "getAnonCredsTagsFromRecord r = None"
    by (auto simp: getAnonCredsTagsFromRecord_char)
next
  assume "anoncredsMetadata r \<noteq> None \<and> (\<forall>k \<in> set requiredTagKeys. truthy (w3c_tags r k))"
  then have "getAnonCredsTagsFromRecord r =
      Some (\<lambda>key. if startsWith key ''anonCreds'' then w3c_tags r key else None)"
    by (simp add: getAnonCredsTagsFromRecord_char)
  then show "\<exists>t. getAnonCredsTagsFromRecord r = Some t
           \<and> (\<forall>key \<in> dom t. startsWith key ''anonCreds'')
           \<and> (\<forall>key. t key = (if startsWith key ''anonCreds'' then w3c_tags r key else None))"
    by (auto simp: dom_def split: if_splits)
qed

theorem tag_extraction_absent_or_filtered_witness:
  "(\<exists>t. getAnonCredsTagsFromRecord example_w3c_record = Some t
       \<and> t ''issuerId'' = None \<and> t ''anonCredsSchemaName'' = Some (TagString ''degree''))
   \<and> getAnonCredsTagsFromRecord example_w3c_no_metadata = None
   \<and> getAnonCredsTagsFromRecord example_w3c_empty_tag = None"
proof -
  have "anoncredsMetadata example_w3c_record \<noteq> None
        \<and> (\<forall>k \<in> set requiredTagKeys. truthy (w3c_tags example_w3c_record k))"
    by (simp add: example_w3c_record_def example_tags_def requiredTagKeys_def)
  with tag_extraction_absent_or_filtered [of example_w3c_record]
  obtain t where t: "getAnonCredsTagsFromRecord example_w3c_record = Some t"
    and filtered: "\<forall>key. t key = (if startsWith key ''anonCreds'' then w3c_tags example_w3c_record key else None)"
    by blast
  from filtered have "t ''issuerId'' = None"
    and "t ''anonCredsSchemaName'' = Some (TagString ''degree'')"
    by (simp_all add: startsWith_def example_w3c_record_def example_tags_def)
  moreover have "anoncredsMetadata example_w3c_no_metadata = None"
    by (simp add: example_w3c_no_metadata_def)
  with tag_extraction_absent_or_filtered [of example_w3c_no_metadata]
  have "getAnonCredsTagsFromRecord example_w3c_no_metadata = None" by blast
  moreover have "\<exists>k \<in> set requiredTagKeys. \<not> truthy (w3c_tags example_w3c_empty_tag k)"
    by (simp add: example_w3c_empty_tag_def requiredTagKeys_def)
  with tag_extraction_absent_or_filtered [of example_w3c_empty_tag]
  have "getAnonCredsTagsFromRecord example_w3c_empty_tag = None" by blast
  ultimately show ?thesis using t by simp
qed

text \<open>
  C10, as the claim states it, fails: the subject of the example record is an array, its
  link-secret tag is the empty string, and the projection raises
  \<open>MalformedCredentialSubject\<close>, since the subject is tested before the tags are read.
\<close>

theorem empty_required_tag_on_array_subject:
  "anoncredsMetadata example_w3c_array_empty_tag = Some example_metadata
   \<and> w3c_tags example_w3c_array_empty_tag ''anonCredsLinkSecretId'' = Some (TagString [])
   \<and> w3c_tags example_w3c_array_empty_tag ''anonCredsMethodName'' \<noteq> None
   \<and> w3c_tags example_w3c_array_empty_tag ''anonCredsSchemaId'' \<noteq> None
   \<and> w3c_tags example_w3c_array_empty_tag ''anonCredsSchemaName'' \<noteq> None
   \<and> w3c_tags example_w3c_array_empty_tag ''anonCredsSchemaVersion'' \<noteq> None
   \<and> w3c_tags example_w3c_array_empty_tag ''anonCredsSchemaIssuerId'' \<noteq> None
   \<and> w3c_tags example_w3c_array_empty_tag ''anonCredsCredentialDefinitionId'' \<noteq> None
   \<and> getAnonCredsTagsFromRecord example_w3c_array_empty_tag = None
   \<and> anoncredsCredentialInfoFromW3cRecord example_w3c_array_empty_tag = Inl MalformedCredentialSubject"
  by (simp add: example_w3c_array_empty_tag_def example_w3c_array_subject_def example_w3c_record_def
      example_tags_def getAnonCredsTagsFromRecord_def anoncredsCredentialInfoFromW3cRecord_def)

text \<open>
  C10, amended: when a required tag holds the empty string the helper answers absent, and
  the projection of the record raises \<open>MissingTags\<close> provided its subject is a single
  object (\<open>MalformedCredentialSubject\<close> when it is an array).
\<close>

theorem empty_required_tag_is_missing:
  assumes "k \<in> set requiredTagKeys" and "w3c_tags r k = Some (TagString [])"
  shows "getAnonCredsTagsFromRecord r = None
         \<and> anoncredsCredentialInfoFromW3cRecord r =
             (if isArray (credentialSubject (w3c_credential r))
              then Inl MalformedCredentialSubject else Inl MissingTags)"
proof -
  from assms have "\<not> truthy (w3c_tags r k)" by simp
  with assms(1) have none: "getAnonCredsTagsFromRecord r = None"
    by (auto simp: getAnonCredsTagsFromRecord_char)
  then show ?thesis
    by (cases "credentialSubject (w3c_credential r)")
       (simp_all add: anoncredsCredentialInfoFromW3cRecord_def)
qed

theorem empty_required_tag_is_missing_witness:
  "''anonCredsSchemaName'' \<in> set requiredTagKeys
   \<and> w3c_tags example_w3c_empty_tag ''anonCredsSchemaName'' = Some (TagString [])
   \<and> getAnonCredsTagsFromRecord example_w3c_empty_tag = None
   \<and> anoncredsCredentialInfoFromW3cRecord example_w3c_empty_tag = Inl MissingTags"
proof -
  have k: "''anonCredsSchemaName'' \<in> set requiredTagKeys"
    by (simp add: requiredTagKeys_def)
  have v: "w3c_tags example_w3c_empty_tag ''anonCredsSchemaName'' = Some (TagString [])"
    by (simp add: example_w3c_empty_tag_def)
  have s: "\<not> isArray (credentialSubject (w3c_credential example_w3c_empty_tag))"
    by (simp add: example_w3c_empty_tag_def example_w3c_record_def)
  from empty_required_tag_is_missing [OF k v] k v s show ?thesis by simp
qed

subsection \<open>Deriving the tags of a W3C record\<close>

text \<open>Sequencing of calls that may raise.\<close>

lemma bindE_Inr [simp]: "bindE (Inr x) f = f x"
  by (simp add: bindE_def)

lemma bindE_Inl [simp]: "bindE (Inl e) f = Inl e"
  by (simp add: bindE_def)

lemma bindE_ok: "\<not> isl x \<Longrightarrow> bindE x f = f (projr x)"
  by (cases x) simp_all

text \<open>
  The attribute keys: distinct names give distinct keys, a value key is never a marker
  key, and neither is one of the keys with a fixed name.
\<close>

lemma attrValueKey_inj [simp]: "(attrValueKey n = attrValueKey m) = (n = m)"
  by (simp add: attrValueKey_def)

lemma attrMarkerKey_inj [simp]: "(attrMarkerKey n = attrMarkerKey m) = (n = m)"
  by (simp add: attrMarkerKey_def)

lemma attrValueKey_neq_attrMarkerKey [simp]: "attrValueKey n \<noteq> attrMarkerKey m"
proof
  assume "attrValueKey n = attrMarkerKey m"
  then have "last (attrValueKey n) = last (attrMarkerKey m)" by simp
  then show False by (simp add: attrValueKey_def attrMarkerKey_def)
qed

lemma attrMarkerKey_neq_attrValueKey [simp]: "attrMarkerKey m \<noteq> attrValueKey n"
  using attrValueKey_neq_attrMarkerKey [of n m] by metis

lemma attr_keys_not_fixed [simp]:
  "attrValueKey n \<notin> fixedTagKeys" "attrMarkerKey n \<notin> fixedTagKeys"
  by (simp_all add: fixedTagKeys_def requiredTagKeys_def mirrorTagKeys_def attrValueKey_def attrMarkerKey_def)

text \<open>The loop over the claims adds the two keys of each claim and touches no other key.\<close>

lemma dom_attributeTags:
  "dom (attributeTags es t) = dom t \<union> attrValueKey ` fst ` set es \<union> attrMarkerKey ` fst ` set es"
proof (induction es arbitrary: t)
  case Nil
  show ?case by simp
next
  case (Cons e es)
  obtain key v where e: "e = (key, v)" by (cases e)
  have "dom (attributeTags (e # es) t) =
      insert (attrMarkerKey key) (insert (attrValueKey key) (dom t))
        \<union> attrValueKey ` fst ` set es \<union> attrMarkerKey ` fst ` set es"
    unfolding e by (simp add: Cons.IH del: fun_upd_apply)
  then show ?case unfolding e by auto
qed

lemma attributeTags_other:
  "k \<notin> attrValueKey ` fst ` set es \<Longrightarrow> k \<notin> attrMarkerKey ` fst ` set es \<Longrightarrow> attributeTags es t k = t k"
proof (induction es arbitrary: t)
  case Nil
  show ?case by simp
next
  case (Cons e es)
  obtain key v where e: "e = (key, v)" by (cases e)
  from Cons.prems have "k \<noteq> attrValueKey key" and "k \<noteq> attrMarkerKey key"
    and "k \<notin> attrValueKey ` fst ` set es" and "k \<notin> attrMarkerKey ` fst ` set es"
    unfolding e by auto
  then show ?case unfolding e by (simp add: Cons.IH)
qed

lemma attributeTags_fixed: "k \<in> fixedTagKeys \<Longrightarrow> attributeTags es t k = t k"
  by (rule attributeTags_other) auto

lemma fst_mapAttribute [simp]:
  "fst ` set (mapAttributeRawValuesToAnonCredsCredentialValues enc cs) = fst ` set cs"
  by (force simp: mapAttributeRawValuesToAnonCredsCredentialValues_def)

lemma dom_structuralTags:
  "dom (structuralTags options) =
     set requiredTagKeys \<union> {''anonCredsRevocationRegistryId'', ''anonCredsCredentialRevocationId''}"
  by (auto simp: structuralTags_def requiredTagKeys_def split: if_splits)

text \<open>The mirror: nothing for another issuer, five keys for an indy issuer.\<close>

lemma unqualifiedTags_not_indy:
  "\<not> isIndyDid (issuerId (w3c_credential (w3cCredentialRecord options))) \<Longrightarrow>
   unqualifiedTags isIndyDid unq options = Inr Map.empty"
  by (simp add: unqualifiedTags_def)

lemma unqualifiedTags_indy:
  assumes "isIndyDid (issuerId (w3c_credential (w3cCredentialRecord options)))"
    and "list_all (\<lambda>i. \<not> isl (unq i)) (mirrorInputs options)"
  shows "unqualifiedTags isIndyDid unq options =
     Inr [''anonCredsUnqualifiedIssuerId'' \<mapsto> TagString (projr (unq (issuerId (w3c_credential (w3cCredentialRecord options))))),
          ''anonCredsUnqualifiedCredentialDefinitionId'' \<mapsto> TagString (projr (unq (opt_credentialDefinitionId options))),
          ''anonCredsUnqualifiedSchemaId'' \<mapsto> TagString (projr (unq (opt_schemaId options))),
          ''anonCredsUnqualifiedSchemaIssuerId'' \<mapsto> TagString (projr (unq (schema_issuerId (opt_schema options)))),
          ''anonCredsUnqualifiedRevocationRegistryId'' \<mapsto> revRegMirror unq (opt_revocationRegistryId options)]"
proof -
  from assms(2) have
    a: "\<not> isl (unq (issuerId (w3c_credential (w3cCredentialRecord options))))" and
    b: "\<not> isl (unq (opt_credentialDefinitionId options))" and
    c: "\<not> isl (unq (opt_schemaId options))" and
    d: "\<not> isl (unq (schema_issuerId (opt_schema options)))"
    by (simp_all add: mirrorInputs_def)
  have e: "(case opt_revocationRegistryId options of
                 None \<Rightarrow> Inr TagUndefined
               | Some revRegId \<Rightarrow>
                   if revRegId \<noteq> []
                   then bindE (unq revRegId) (\<lambda>u. Inr (TagString u))
                   else Inr TagUndefined) = (Inr (revRegMirror unq (opt_revocationRegistryId options)) :: error + tag_value)"
    using assms(2) by (auto simp: mirrorInputs_def revRegMirror_def bindE_ok split: option.splits)
  show ?thesis
    unfolding unqualifiedTags_def e using assms(1) by (simp add: bindE_ok a b c d)
qed

lemma unqualifiedTags_mirrorable:
  assumes "mirrorable isIndyDid unq options"
  shows "unqualifiedTags isIndyDid unq options = Inr (mirrorTags isIndyDid unq options)"
proof (cases "isIndyDid (issuerId (w3c_credential (w3cCredentialRecord options)))")
  case True
  with assms have "list_all (\<lambda>i. \<not> isl (unq i)) (mirrorInputs options)"
    by (simp add: mirrorable_def)
  with True show ?thesis
    by (simp add: unqualifiedTags_indy mirrorTags_def)
next
  case False
  then show ?thesis
    by (simp add: unqualifiedTags_not_indy mirrorTags_def)
qed

lemma dom_mirrorTags:
  "dom (mirrorTags isIndyDid unq options) =
     (if isIndyDid (issuerId (w3c_credential (w3cCredentialRecord options))) then set mirrorTagKeys else {})"
  by (auto simp: mirrorTags_def mirrorTagKeys_def split: if_splits)

text \<open>What the derivation returns in a valid context.\<close>

lemma getW3cRecordAnonCredsTags_valid:
  assumes "validContext isIndyDid unq options"
  shows "getW3cRecordAnonCredsTags isIndyDid unq enc options =
     Inr (attributeTags
            (mapAttributeRawValuesToAnonCredsCredentialValues enc
               (case credentialSubject (w3c_credential (w3cCredentialRecord options)) of
                  SubjectObject c \<Rightarrow> claims_or_empty c | SubjectArray _ \<Rightarrow> []))
            (structuralTags options ++ mirrorTags isIndyDid unq options))"
proof -
  from assms obtain c where
    "credentialSubject (w3c_credential (w3cCredentialRecord options)) = SubjectObject c"
    by (cases "credentialSubject (w3c_credential (w3cCredentialRecord options))")
       (simp_all add: validContext_def)
  then show ?thesis
    using assms by (simp add: getW3cRecordAnonCredsTags_def unqualifiedTags_mirrorable validContext_def)
qed

lemma claimNames_alt:
  "claimNames s = fst ` set (case s of SubjectObject c \<Rightarrow> claims_or_empty c | SubjectArray _ \<Rightarrow> [])"
  by (cases s) simp_all

lemma example_options_valid:
  "validContext spec_isIndyDid spec_getUnQualifiedDidIndyDid example_options"
  by (simp add: validContext_def mirrorable_def mirrorInputs_def example_options_def
      example_w3c_record_def spec_isIndyDid_def spec_getUnQualifiedDidIndyDid_def startsWith_def)

lemma example_web_options_valid:
  "validContext spec_isIndyDid spec_getUnQualifiedDidIndyDid example_web_options"
  by (simp add: validContext_def mirrorable_def mirrorInputs_def example_web_options_def
      example_w3c_record_def spec_isIndyDid_def spec_getUnQualifiedDidIndyDid_def startsWith_def)

text \<open>
  C3, as the claim states it, fails: in a valid context with a \<^verbatim>\<open>did:web\<close> issuer and
  no revocation registry, the two revocation keys are in the tag set all the same, each
  with the value \<^verbatim>\<open>undefined\<close>.
\<close>

theorem optional_tags_present_with_undefined:
  "validContext spec_isIndyDid spec_getUnQualifiedDidIndyDid example_web_options
   \<and> opt_revocationRegistryId example_web_options = None
   \<and> opt_credentialRevocationId example_web_options = None
   \<and> \<not> isl (getW3cRecordAnonCredsTags spec_isIndyDid spec_getUnQualifiedDidIndyDid example_encoder example_web_options)
   \<and> projr (getW3cRecordAnonCredsTags spec_isIndyDid spec_getUnQualifiedDidIndyDid example_encoder example_web_options)
        ''anonCredsRevocationRegistryId'' = Some TagUndefined
   \<and> projr (getW3cRecordAnonCredsTags spec_isIndyDid spec_getUnQualifiedDidIndyDid example_encoder example_web_options)
        ''anonCredsCredentialRevocationId'' = Some TagUndefined"
proof -
  have m: "mirrorTags spec_isIndyDid spec_getUnQualifiedDidIndyDid example_web_options = Map.empty"
    by (simp add: mirrorTags_def example_web_options_def spec_isIndyDid_def startsWith_def)
  show ?thesis
    by (simp add: example_web_options_valid getW3cRecordAnonCredsTags_valid [OF example_web_options_valid]
        attributeTags_fixed fixedTagKeys_def m structuralTags_def optionalTag_def)
       (simp add: example_web_options_def)
qed

text \<open>
  C3, amended: in every valid derivation context the keys of the tag set are exactly the
  seven required keys, the two revocation keys, the five mirror keys when the issuer is an
  indy DID, and one value key and one marker key per claim name of the subject. The two
  revocation keys are always there: each holds the id given in the context, or
  \<^verbatim>\<open>undefined\<close> when none is given (the credential revocation id on its own account,
  whether or not a registry is given). A value key is in the tag set exactly when its
  marker key is, and exactly when its name is a claim name.
\<close>

theorem derived_tag_keys:
  assumes "validContext isIndyDid unq options"
  shows "\<exists>t. getW3cRecordAnonCredsTags isIndyDid unq enc options = Inr t
     \<and> dom t = set requiredTagKeys
           \<union> {''anonCredsRevocationRegistryId'', ''anonCredsCredentialRevocationId''}
           \<union> (if isIndyDid (issuerId (w3c_credential (w3cCredentialRecord options)))
              then set mirrorTagKeys else {})
           \<union> attrValueKey ` claimNames (credentialSubject (w3c_credential (w3cCredentialRecord options)))
           \<union> attrMarkerKey ` claimNames (credentialSubject (w3c_credential (w3cCredentialRecord options)))
     \<and> t ''anonCredsRevocationRegistryId'' = Some (optionalTag (opt_revocationRegistryId options))
     \<and> t ''anonCredsCredentialRevocationId'' = Some (optionalTag (opt_credentialRevocationId options))
     \<and> (\<forall>n. (attrValueKey n \<in> dom t) = (attrMarkerKey n \<in> dom t))
     \<and> (\<forall>n. (attrValueKey n \<in> dom t) =
              (n \<in> claimNames (credentialSubject (w3c_credential (w3cCredentialRecord options)))))"
proof -
  let ?s = "credentialSubject (w3c_credential (w3cCredentialRecord options))"
  let ?es = "mapAttributeRawValuesToAnonCredsCredentialValues enc
               (case ?s of SubjectObject c \<Rightarrow> claims_or_empty c | SubjectArray _ \<Rightarrow> [])"
  let ?base = "structuralTags options ++ mirrorTags isIndyDid unq options"
  let ?t = "attributeTags ?es ?base"
  have names: "fst ` set ?es = claimNames ?s"
    by (simp add: claimNames_alt)
  have dom_base: "dom ?base = set requiredTagKeys
           \<union> {''anonCredsRevocationRegistryId'', ''anonCredsCredentialRevocationId''}
           \<union> (if isIndyDid (issuerId (w3c_credential (w3cCredentialRecord options)))
              then set mirrorTagKeys else {})"
    by (simp add: dom_structuralTags dom_mirrorTags Un_commute)
  have base_fixed: "dom ?base \<subseteq> fixedTagKeys"
    unfolding dom_base by (auto simp: fixedTagKeys_def)
  have dom_t: "dom ?t = dom ?base \<union> attrValueKey ` claimNames ?s \<union> attrMarkerKey ` claimNames ?s"
    by (simp only: dom_attributeTags names)
  have not_base: "attrValueKey n \<notin> dom ?base \<and> attrMarkerKey n \<notin> dom ?base" for n
    using base_fixed attr_keys_not_fixed [of n] by (meson subsetD)
  have value_iff: "(attrValueKey n \<in> dom ?t) = (n \<in> claimNames ?s)" for n
    unfolding dom_t using not_base [of n] by auto
  have marker_iff: "(attrMarkerKey n \<in> dom ?t) = (n \<in> claimNames ?s)" for n
    unfolding dom_t using not_base [of n] by auto
  have mirror_none: "mirrorTags isIndyDid unq options ''anonCredsRevocationRegistryId'' = None"
    "mirrorTags isIndyDid unq options ''anonCredsCredentialRevocationId'' = None"
    by (simp_all add: mirrorTags_def)
  have rev: "?t ''anonCredsRevocationRegistryId'' = Some (optionalTag (opt_revocationRegistryId options))"
    by (simp add: attributeTags_fixed fixedTagKeys_def map_add_def mirror_none structuralTags_def)
  have crev: "?t ''anonCredsCredentialRevocationId'' = Some (optionalTag (opt_credentialRevocationId options))"
    by (simp add: attributeTags_fixed fixedTagKeys_def map_add_def mirror_none structuralTags_def)
  show ?thesis
    using getW3cRecordAnonCredsTags_valid [OF assms, of enc] dom_t dom_base rev crev value_iff marker_iff
    by simp
qed

theorem derived_tag_keys_witness:
  "validContext spec_isIndyDid spec_getUnQualifiedDidIndyDid example_options
   \<and> (\<exists>t. getW3cRecordAnonCredsTags spec_isIndyDid spec_getUnQualifiedDidIndyDid example_encoder example_options = Inr t
        \<and> t ''anonCredsRevocationRegistryId'' = Some TagUndefined
        \<and> ''anonCredsAttr::name::value'' \<in> dom t
        \<and> ''anonCredsAttr::name::marker'' \<in> dom t
        \<and> ''anonCredsAttr::age::value'' \<notin> dom t)"
proof -
  note v = example_options_valid
  from derived_tag_keys [OF v, of example_encoder] obtain t where
    all: "getW3cRecordAnonCredsTags spec_isIndyDid spec_getUnQualifiedDidIndyDid example_encoder example_options = Inr t
     \<and> dom t = set requiredTagKeys
           \<union> {''anonCredsRevocationRegistryId'', ''anonCredsCredentialRevocationId''}
           \<union> (if spec_isIndyDid (issuerId (w3c_credential (w3cCredentialRecord example_options)))
              then set mirrorTagKeys else {})
           \<union> attrValueKey ` claimNames (credentialSubject (w3c_credential (w3cCredentialRecord example_options)))
           \<union> attrMarkerKey ` claimNames (credentialSubject (w3c_credential (w3cCredentialRecord example_options)))
     \<and> t ''anonCredsRevocationRegistryId'' = Some (optionalTag (opt_revocationRegistryId example_options))
     \<and> t ''anonCredsCredentialRevocationId'' = Some (optionalTag (opt_credentialRevocationId example_options))
     \<and> (\<forall>n. (attrValueKey n \<in> dom t) = (attrMarkerKey n \<in> dom t))
     \<and> (\<forall>n. (attrValueKey n \<in> dom t) =
              (n \<in> claimNames (credentialSubject (w3c_credential (w3cCredentialRecord example_options)))))"
    ..
  from all have t: "getW3cRecordAnonCredsTags spec_isIndyDid spec_getUnQualifiedDidIndyDid example_encoder example_options = Inr t"
    by (rule conjunct1)
  from all have rev: "t ''anonCredsRevocationRegistryId'' = Some (optionalTag (opt_revocationRegistryId example_options))"
    by (elim conjE)
  from all have pair: "\<forall>n. (attrValueKey n \<in> dom t) = (attrMarkerKey n \<in> dom t)"
    by (elim conjE)
  from all have names: "\<forall>n. (attrValueKey n \<in> dom t) =
              (n \<in> claimNames (credentialSubject (w3c_credential (w3cCredentialRecord example_options))))"
    by (elim conjE)
  have cn: "claimNames (credentialSubject (w3c_credential (w3cCredentialRecord example_options))) = {''name''}"
    by (simp add: example_options_def example_w3c_record_def claims_or_empty_def)
  from names cn have a: "attrValueKey ''name'' \<in> dom t" and c: "attrValueKey ''age'' \<notin> dom t"
    by simp_all
  from a pair have b: "attrMarkerKey ''name'' \<in> dom t" by simp
  from rev have r: "t ''anonCredsRevocationRegistryId'' = Some TagUndefined"
    by (simp add: example_options_def optionalTag_def)
  from a b c have "''anonCredsAttr::name::value'' \<in> dom t" "''anonCredsAttr::name::marker'' \<in> dom t"
    "''anonCredsAttr::age::value'' \<notin> dom t"
    by (simp_all add: attrValueKey_def attrMarkerKey_def)
  with v t r show ?thesis by (intro conjI exI [of _ t])
qed

text \<open>
  Building the mirror raises the error of the first helper call that raises, and gives the
  five mirror tags when none does.
\<close>

lemma firstError_None_iff:
  "(firstError unq inputs = None) = list_all (\<lambda>i. \<not> isl (unq i)) inputs"
  by (induction inputs) (auto split: sum.splits)

lemma mirrorable_iff: "mirrorable isIndyDid unq options = (mirrorError isIndyDid unq options = None)"
  by (simp add: mirrorable_def mirrorError_def firstError_None_iff)

lemma unqualifiedTags_raises:
  assumes "mirrorError isIndyDid unq options = Some e"
  shows "unqualifiedTags isIndyDid unq options = Inl e"
proof -
  from assms have indy: "isIndyDid (issuerId (w3c_credential (w3cCredentialRecord options)))"
    and first: "firstError unq (mirrorInputs options) = Some e"
    by (simp_all add: mirrorError_def split: if_splits)
  show ?thesis
  proof (cases "unq (issuerId (w3c_credential (w3cCredentialRecord options)))")
    case (Inl a)
    with first indy show ?thesis by (simp add: unqualifiedTags_def mirrorInputs_def)
  next
    case a: (Inr a)
    show ?thesis
    proof (cases "unq (opt_credentialDefinitionId options)")
      case (Inl b)
      with first indy a show ?thesis by (simp add: unqualifiedTags_def mirrorInputs_def)
    next
      case b: (Inr b)
      show ?thesis
      proof (cases "unq (opt_schemaId options)")
        case (Inl c)
        with first indy a b show ?thesis by (simp add: unqualifiedTags_def mirrorInputs_def)
      next
        case c: (Inr c)
        show ?thesis
        proof (cases "unq (schema_issuerId (opt_schema options))")
          case (Inl d)
          with first indy a b c show ?thesis by (simp add: unqualifiedTags_def mirrorInputs_def)
        next
          case d: (Inr d)
          from first a b c d obtain r where r: "opt_revocationRegistryId options = Some r"
            and ne: "r \<noteq> []" and ur: "unq r = Inl e"
            by (auto simp: mirrorInputs_def split: option.splits if_splits sum.splits)
          with indy a b c d show ?thesis by (simp add: unqualifiedTags_def)
        qed
      qed
    qed
  qed
qed

lemma getW3cRecordAnonCredsTags_raises:
  "mirrorError isIndyDid unq options = Some e \<Longrightarrow>
   getW3cRecordAnonCredsTags isIndyDid unq enc options = Inl e"
  by (simp add: getW3cRecordAnonCredsTags_def unqualifiedTags_raises)

lemma validContext_iff_returns:
  "validContext isIndyDid unq options = (\<not> isl (getW3cRecordAnonCredsTags isIndyDid unq enc options))"
proof (cases "mirrorError isIndyDid unq options")
  case None
  then have "mirrorable isIndyDid unq options" by (simp add: mirrorable_iff)
  then show ?thesis
    by (cases "credentialSubject (w3c_credential (w3cCredentialRecord options))")
       (simp_all add: validContext_def getW3cRecordAnonCredsTags_def unqualifiedTags_mirrorable)
next
  case (Some e)
  then have "\<not> mirrorable isIndyDid unq options" by (simp add: mirrorable_iff)
  with Some show ?thesis
    by (simp add: validContext_def getW3cRecordAnonCredsTags_raises)
qed

lemma mirror_tags_in_valid_context:
  assumes "validContext isIndyDid unq options"
  shows "\<exists>t. getW3cRecordAnonCredsTags isIndyDid unq enc options = Inr t
     \<and> (\<forall>k \<in> set mirrorTagKeys.
            (k \<in> dom t) = isIndyDid (issuerId (w3c_credential (w3cCredentialRecord options))))
     \<and> (isIndyDid (issuerId (w3c_credential (w3cCredentialRecord options))) \<longrightarrow>
          t ''anonCredsUnqualifiedIssuerId'' =
            Some (TagString (projr (unq (issuerId (w3c_credential (w3cCredentialRecord options))))))
        \<and> t ''anonCredsUnqualifiedCredentialDefinitionId'' =
            Some (TagString (projr (unq (opt_credentialDefinitionId options))))
        \<and> t ''anonCredsUnqualifiedSchemaId'' = Some (TagString (projr (unq (opt_schemaId options))))
        \<and> t ''anonCredsUnqualifiedSchemaIssuerId'' =
            Some (TagString (projr (unq (schema_issuerId (opt_schema options)))))
        \<and> t ''anonCredsUnqualifiedRevocationRegistryId'' =
            Some (revRegMirror unq (opt_revocationRegistryId options)))"
proof -
  let ?es = "mapAttributeRawValuesToAnonCredsCredentialValues enc
               (case credentialSubject (w3c_credential (w3cCredentialRecord options)) of
                  SubjectObject c \<Rightarrow> claims_or_empty c | SubjectArray _ \<Rightarrow> [])"
  let ?m = "mirrorTags isIndyDid unq options"
  let ?t = "attributeTags ?es (structuralTags options ++ ?m)"
  have fixed: "?t k = (structuralTags options ++ ?m) k" if "k \<in> set mirrorTagKeys" for k
    using that by (simp add: attributeTags_fixed fixedTagKeys_def)
  have struct: "structuralTags options k = None" if "k \<in> set mirrorTagKeys" for k
    using that by (auto simp: structuralTags_def mirrorTagKeys_def)
  have val: "?t k = ?m k" if "k \<in> set mirrorTagKeys" for k
    using fixed [OF that] struct [OF that] by (simp add: map_add_def split: option.splits)
  have keys: "(k \<in> dom ?t) = isIndyDid (issuerId (w3c_credential (w3cCredentialRecord options)))"
    if "k \<in> set mirrorTagKeys" for k
  proof -
    have "(k \<in> dom ?t) = (k \<in> dom ?m)" using val [OF that] by (simp add: dom_def)
    with that show ?thesis by (simp add: dom_mirrorTags)
  qed
  have vals: "?t ''anonCredsUnqualifiedIssuerId'' = ?m ''anonCredsUnqualifiedIssuerId''"
    "?t ''anonCredsUnqualifiedCredentialDefinitionId'' = ?m ''anonCredsUnqualifiedCredentialDefinitionId''"
    "?t ''anonCredsUnqualifiedSchemaId'' = ?m ''anonCredsUnqualifiedSchemaId''"
    "?t ''anonCredsUnqualifiedSchemaIssuerId'' = ?m ''anonCredsUnqualifiedSchemaIssuerId''"
    "?t ''anonCredsUnqualifiedRevocationRegistryId'' = ?m ''anonCredsUnqualifiedRevocationRegistryId''"
    by (rule val, simp add: mirrorTagKeys_def)+
  show ?thesis
    using getW3cRecordAnonCredsTags_valid [OF assms, of enc] keys
    by (simp add: vals) (simp add: mirrorTags_def)
qed

text \<open>
  C4, as the claim states it, fails: the issuer of the example context is an indy DID and
  its subject a single object, but its credential definition id is a \<^verbatim>\<open>did:web\<close>
  identifier; the helper raises on it, the derivation raises with it, and no mirror tag
  appears, where the claim has the identifier skipped.
\<close>

theorem mirror_not_skipped_on_mixed_identifiers:
  "spec_isIndyDid (issuerId (w3c_credential (w3cCredentialRecord example_mixed_options)))
   \<and> \<not> isArray (credentialSubject (w3c_credential (w3cCredentialRecord example_mixed_options)))
   \<and> getW3cRecordAnonCredsTags spec_isIndyDid spec_getUnQualifiedDidIndyDid example_encoder example_mixed_options
       = Inl InvalidIdentifier"
  by (simp add: getW3cRecordAnonCredsTags_def unqualifiedTags_def example_mixed_options_def
      example_options_def example_w3c_record_def
      spec_isIndyDid_def spec_getUnQualifiedDidIndyDid_def startsWith_def)

text \<open>
  C4, amended: the derivation returns a tag set exactly in the valid contexts (the subject
  is a single object and, when the issuer is an indy DID, every identifier to be mirrored
  can be unqualified). In every tag set it returns, each of the five mirror keys is there
  if and only if the issuer id is an indy DID; for an indy issuer the keys hold the
  unqualified issuer id, credential definition id, schema id and schema issuer id, and the
  unqualified revocation registry id when one is given (\<^verbatim>\<open>undefined\<close> otherwise). When
  the issuer is an indy DID and one of these identifiers cannot be unqualified, nothing is
  skipped: the derivation raises the error of the first helper call that raises and
  returns no tag set.
\<close>

theorem mirror_tags_iff_indy_issuer:
  "validContext isIndyDid unq options = (\<not> isl (getW3cRecordAnonCredsTags isIndyDid unq enc options))
   \<and> (\<forall>t. getW3cRecordAnonCredsTags isIndyDid unq enc options = Inr t \<longrightarrow>
        (\<forall>k \<in> set mirrorTagKeys.
            (k \<in> dom t) = isIndyDid (issuerId (w3c_credential (w3cCredentialRecord options))))
        \<and> (isIndyDid (issuerId (w3c_credential (w3cCredentialRecord options))) \<longrightarrow>
             t ''anonCredsUnqualifiedIssuerId'' =
               Some (TagString (projr (unq (issuerId (w3c_credential (w3cCredentialRecord options))))))
           \<and> t ''anonCredsUnqualifiedCredentialDefinitionId'' =
               Some (TagString (projr (unq (opt_credentialDefinitionId options))))
           \<and> t ''anonCredsUnqualifiedSchemaId'' = Some (TagString (projr (unq (opt_schemaId options))))
           \<and> t ''anonCredsUnqualifiedSchemaIssuerId'' =
               Some (TagString (projr (unq (schema_issuerId (opt_schema options)))))
           \<and> t ''anonCredsUnqualifiedRevocationRegistryId'' =
               Some (revRegMirror unq (opt_revocationRegistryId options))))
   \<and> (\<forall>e. isIndyDid (issuerId (w3c_credential (w3cCredentialRecord options)))
           \<and> firstError unq (mirrorInputs options) = Some e \<longrightarrow>
        getW3cRecordAnonCredsTags isIndyDid unq enc options = Inl e)"
proof (intro conjI allI impI)
  show "validContext isIndyDid unq options = (\<not> isl (getW3cRecordAnonCredsTags isIndyDid unq enc options))"
    by (rule validContext_iff_returns)
next
  fix e
  assume "isIndyDid (issuerId (w3c_credential (w3cCredentialRecord options)))
           \<and> firstError unq (mirrorInputs options) = Some e"
  then have "mirrorError isIndyDid unq options = Some e" by (simp add: mirrorError_def)
  then show "getW3cRecordAnonCredsTags isIndyDid unq enc options = Inl e"
    by (rule getW3cRecordAnonCredsTags_raises)
next
  fix t
  assume t: "getW3cRecordAnonCredsTags isIndyDid unq enc options = Inr t"
  then have "validContext isIndyDid unq options"
    by (simp add: validContext_iff_returns [where enc = enc])
  from mirror_tags_in_valid_context [OF this, of enc] t
  have all: "(\<forall>k \<in> set mirrorTagKeys.
            (k \<in> dom t) = isIndyDid (issuerId (w3c_credential (w3cCredentialRecord options))))
     \<and> (isIndyDid (issuerId (w3c_credential (w3cCredentialRecord options))) \<longrightarrow>
          t ''anonCredsUnqualifiedIssuerId'' =
            Some (TagString (projr (unq (issuerId (w3c_credential (w3cCredentialRecord options))))))
        \<and> t ''anonCredsUnqualifiedCredentialDefinitionId'' =
            Some (TagString (projr (unq (opt_credentialDefinitionId options))))
        \<and> t ''anonCredsUnqualifiedSchemaId'' = Some (TagString (projr (unq (opt_schemaId options))))
        \<and> t ''anonCredsUnqualifiedSchemaIssuerId'' =
            Some (TagString (projr (unq (schema_issuerId (opt_schema options)))))
        \<and> t ''anonCredsUnqualifiedRevocationRegistryId'' =
            Some (revRegMirror unq (opt_revocationRegistryId options)))"
    by simp
  from all show "\<forall>k \<in> set mirrorTagKeys.
            (k \<in> dom t) = isIndyDid (issuerId (w3c_credential (w3cCredentialRecord options)))"
    by (rule conjunct1)
  assume indy: "isIndyDid (issuerId (w3c_credential (w3cCredentialRecord options)))"
  from all indy show "t ''anonCredsUnqualifiedIssuerId'' =
            Some (TagString (projr (unq (issuerId (w3c_credential (w3cCredentialRecord options))))))"
    by simp
  from all indy show "t ''anonCredsUnqualifiedCredentialDefinitionId'' =
            Some (TagString (projr (unq (opt_credentialDefinitionId options))))"
    by simp
  from all indy show "t ''anonCredsUnqualifiedSchemaId'' = Some (TagString (projr (unq (opt_schemaId options))))"
    by simp
  from all indy show "t ''anonCredsUnqualifiedSchemaIssuerId'' =
            Some (TagString (projr (unq (schema_issuerId (opt_schema options)))))"
    by simp
  from all indy show "t ''anonCredsUnqualifiedRevocationRegistryId'' =
            Some (revRegMirror unq (opt_revocationRegistryId options))"
    by simp
qed

theorem mirror_tags_iff_indy_issuer_witness:
  "(\<exists>t. getW3cRecordAnonCredsTags spec_isIndyDid spec_getUnQualifiedDidIndyDid example_encoder example_options = Inr t
        \<and> t ''anonCredsUnqualifiedSchemaId'' = Some (TagString ''XYZ/anoncreds/v0/SCHEMA/degree/1.0'')
        \<and> t ''anonCredsUnqualifiedIssuerId'' = Some (TagString ''XYZ''))
   \<and> (\<exists>t. getW3cRecordAnonCredsTags spec_isIndyDid spec_getUnQualifiedDidIndyDid example_encoder example_web_options = Inr t
        \<and> ''anonCredsUnqualifiedSchemaId'' \<notin> dom t
        \<and> ''anonCredsUnqualifiedIssuerId'' \<notin> dom t)
   \<and> getW3cRecordAnonCredsTags spec_isIndyDid spec_getUnQualifiedDidIndyDid example_encoder example_mixed_options
       = Inl InvalidIdentifier"
proof -
  note thm1 = mirror_tags_iff_indy_issuer
    [of spec_isIndyDid spec_getUnQualifiedDidIndyDid example_options example_encoder]
  note thm2 = mirror_tags_iff_indy_issuer
    [of spec_isIndyDid spec_getUnQualifiedDidIndyDid example_web_options example_encoder]
  note thm3 = mirror_tags_iff_indy_issuer
    [of spec_isIndyDid spec_getUnQualifiedDidIndyDid example_mixed_options example_encoder]
  have indy: "spec_isIndyDid (issuerId (w3c_credential (w3cCredentialRecord example_options)))"
    by (simp add: example_options_def example_w3c_record_def spec_isIndyDid_def startsWith_def)
  have web: "\<not> spec_isIndyDid (issuerId (w3c_credential (w3cCredentialRecord example_web_options)))"
    by (simp add: example_web_options_def spec_isIndyDid_def startsWith_def)
  have u1: "projr (spec_getUnQualifiedDidIndyDid (opt_schemaId example_options)) = ''XYZ/anoncreds/v0/SCHEMA/degree/1.0''"
    by (simp add: example_options_def spec_getUnQualifiedDidIndyDid_def startsWith_def)
  have u2: "projr (spec_getUnQualifiedDidIndyDid (issuerId (w3c_credential (w3cCredentialRecord example_options)))) = ''XYZ''"
    by (simp add: example_options_def example_w3c_record_def spec_getUnQualifiedDidIndyDid_def startsWith_def)
  have k: "''anonCredsUnqualifiedSchemaId'' \<in> set mirrorTagKeys" "''anonCredsUnqualifiedIssuerId'' \<in> set mirrorTagKeys"
    by (simp_all add: mirrorTagKeys_def)
  from thm1 example_options_valid
  have "\<not> isl (getW3cRecordAnonCredsTags spec_isIndyDid spec_getUnQualifiedDidIndyDid example_encoder example_options)"
    by simp
  then obtain t1 where t1:
    "getW3cRecordAnonCredsTags spec_isIndyDid spec_getUnQualifiedDidIndyDid example_encoder example_options = Inr t1"
    by (cases "getW3cRecordAnonCredsTags spec_isIndyDid spec_getUnQualifiedDidIndyDid example_encoder example_options")
       simp_all
  from thm1 t1 indy have "t1 ''anonCredsUnqualifiedSchemaId'' = Some (TagString ''XYZ/anoncreds/v0/SCHEMA/degree/1.0'')"
    and "t1 ''anonCredsUnqualifiedIssuerId'' = Some (TagString ''XYZ'')"
    by (simp_all add: u1 u2)
  with t1 have a: "\<exists>t. getW3cRecordAnonCredsTags spec_isIndyDid spec_getUnQualifiedDidIndyDid example_encoder example_options = Inr t
        \<and> t ''anonCredsUnqualifiedSchemaId'' = Some (TagString ''XYZ/anoncreds/v0/SCHEMA/degree/1.0'')
        \<and> t ''anonCredsUnqualifiedIssuerId'' = Some (TagString ''XYZ'')"
    by (intro exI [of _ t1]) simp
  from thm2 example_web_options_valid
  have "\<not> isl (getW3cRecordAnonCredsTags spec_isIndyDid spec_getUnQualifiedDidIndyDid example_encoder example_web_options)"
    by simp
  then obtain t2 where t2:
    "getW3cRecordAnonCredsTags spec_isIndyDid spec_getUnQualifiedDidIndyDid example_encoder example_web_options = Inr t2"
    by (cases "getW3cRecordAnonCredsTags spec_isIndyDid spec_getUnQualifiedDidIndyDid example_encoder example_web_options")
       simp_all
  from thm2 t2 have "\<forall>k \<in> set mirrorTagKeys.
      (k \<in> dom t2) = spec_isIndyDid (issuerId (w3c_credential (w3cCredentialRecord example_web_options)))"
    by simp
  with web k have "''anonCredsUnqualifiedSchemaId'' \<notin> dom t2" and "''anonCredsUnqualifiedIssuerId'' \<notin> dom t2"
    by simp_all
  with t2 have b: "\<exists>t. getW3cRecordAnonCredsTags spec_isIndyDid spec_getUnQualifiedDidIndyDid example_encoder example_web_options = Inr t
        \<and> ''anonCredsUnqualifiedSchemaId'' \<notin> dom t
        \<and> ''anonCredsUnqualifiedIssuerId'' \<notin> dom t"
    by (intro exI [of _ t2]) simp
  have "spec_isIndyDid (issuerId (w3c_credential (w3cCredentialRecord example_mixed_options)))
        \<and> firstError spec_getUnQualifiedDidIndyDid (mirrorInputs example_mixed_options) = Some InvalidIdentifier"
    by (simp add: example_mixed_options_def example_options_def example_w3c_record_def mirrorInputs_def
        spec_isIndyDid_def spec_getUnQualifiedDidIndyDid_def startsWith_def)
  with thm3 have c: "getW3cRecordAnonCredsTags spec_isIndyDid spec_getUnQualifiedDidIndyDid example_encoder example_mixed_options
       = Inl InvalidIdentifier"
    by simp
  from a b c show ?thesis by simp
qed

text \<open>
  C6, as the claim states it, fails: the subject is an array, the issuer an indy DID and
  the credential definition id a \<^verbatim>\<open>did:web\<close> identifier; the mirror is computed before
  the subject is tested, and the derivation raises \<open>InvalidIdentifier\<close>.
\<close>

theorem array_subject_mirror_fails_first:
  "isArray (credentialSubject (w3c_credential (w3cCredentialRecord example_array_options)))
   \<and> getW3cRecordAnonCredsTags spec_isIndyDid spec_getUnQualifiedDidIndyDid example_encoder example_array_options
       = Inl InvalidIdentifier"
  by (simp add: getW3cRecordAnonCredsTags_def unqualifiedTags_def example_array_options_def
      example_options_def example_w3c_array_subject_def example_w3c_record_def
      spec_isIndyDid_def spec_getUnQualifiedDidIndyDid_def startsWith_def)

text \<open>
  C6, amended: when the subject is an array, the projection of the W3C record raises
  \<open>MalformedCredentialSubject\<close>; the derivation of the tags never returns a tag set: it
  raises \<open>MalformedCredentialSubject\<close> whenever the mirror, which is computed first, can
  be built, and otherwise the error of the first helper call that raises.
\<close>

theorem array_subject_rejected:
  "(isArray (credentialSubject (w3c_credential r)) \<longrightarrow>
      anoncredsCredentialInfoFromW3cRecord r = Inl MalformedCredentialSubject)
   \<and> (isArray (credentialSubject (w3c_credential (w3cCredentialRecord options))) \<longrightarrow>
        isl (getW3cRecordAnonCredsTags isIndyDid unq enc options)
        \<and> (mirrorable isIndyDid unq options \<longrightarrow>
             getW3cRecordAnonCredsTags isIndyDid unq enc options = Inl MalformedCredentialSubject)
        \<and> (\<not> mirrorable isIndyDid unq options \<longrightarrow>
             isIndyDid (issuerId (w3c_credential (w3cCredentialRecord options)))
             \<and> (\<exists>e. firstError unq (mirrorInputs options) = Some e
                    \<and> getW3cRecordAnonCredsTags isIndyDid unq enc options = Inl e)))"
proof (intro conjI impI)
  assume "isArray (credentialSubject (w3c_credential r))"
  then show "anoncredsCredentialInfoFromW3cRecord r = Inl MalformedCredentialSubject"
    by (cases "credentialSubject (w3c_credential r)")
       (simp_all add: anoncredsCredentialInfoFromW3cRecord_def)
next
  assume a: "isArray (credentialSubject (w3c_credential (w3cCredentialRecord options)))"
  then obtain xs where xs: "credentialSubject (w3c_credential (w3cCredentialRecord options)) = SubjectArray xs"
    by (cases "credentialSubject (w3c_credential (w3cCredentialRecord options))") simp_all
  show "isl (getW3cRecordAnonCredsTags isIndyDid unq enc options)"
    by (cases "unqualifiedTags isIndyDid unq options")
       (simp_all add: getW3cRecordAnonCredsTags_def xs)
  show "getW3cRecordAnonCredsTags isIndyDid unq enc options = Inl MalformedCredentialSubject"
    if "mirrorable isIndyDid unq options"
    using that by (simp add: getW3cRecordAnonCredsTags_def unqualifiedTags_mirrorable xs)
  assume "\<not> mirrorable isIndyDid unq options"
  then obtain e where e: "mirrorError isIndyDid unq options = Some e"
    by (auto simp: mirrorable_iff)
  then show "isIndyDid (issuerId (w3c_credential (w3cCredentialRecord options)))"
    by (simp add: mirrorError_def split: if_splits)
  from e have "firstError unq (mirrorInputs options) = Some e"
    by (simp add: mirrorError_def split: if_splits)
  moreover from e have "getW3cRecordAnonCredsTags isIndyDid unq enc options = Inl e"
    by (rule getW3cRecordAnonCredsTags_raises)
  ultimately show "\<exists>e. firstError unq (mirrorInputs options) = Some e
                    \<and> getW3cRecordAnonCredsTags isIndyDid unq enc options = Inl e"
    by (intro exI [of _ e]) simp
qed

theorem array_subject_rejected_witness:
  "isArray (credentialSubject (w3c_credential example_w3c_array_subject))
   \<and> mirrorable spec_isIndyDid spec_getUnQualifiedDidIndyDid example_array_indy_options
   \<and> \<not> mirrorable spec_isIndyDid spec_getUnQualifiedDidIndyDid example_array_options
   \<and> anoncredsCredentialInfoFromW3cRecord example_w3c_array_subject = Inl MalformedCredentialSubject
   \<and> getW3cRecordAnonCredsTags spec_isIndyDid spec_getUnQualifiedDidIndyDid example_encoder example_array_indy_options
       = Inl MalformedCredentialSubject
   \<and> getW3cRecordAnonCredsTags spec_isIndyDid spec_getUnQualifiedDidIndyDid example_encoder example_array_options
       = Inl InvalidIdentifier"
proof -
  have a: "isArray (credentialSubject (w3c_credential example_w3c_array_subject))"
    by (simp add: example_w3c_array_subject_def)
  have b: "isArray (credentialSubject (w3c_credential (w3cCredentialRecord example_array_indy_options)))"
    by (simp add: example_array_indy_options_def example_w3c_array_subject_def)
  have c: "isArray (credentialSubject (w3c_credential (w3cCredentialRecord example_array_options)))"
    by (simp add: example_array_options_def example_w3c_array_subject_def)
  have m: "mirrorable spec_isIndyDid spec_getUnQualifiedDidIndyDid example_array_indy_options"
    by (simp add: mirrorable_def mirrorInputs_def example_array_indy_options_def example_options_def
        example_w3c_array_subject_def spec_getUnQualifiedDidIndyDid_def startsWith_def)
  have n: "\<not> mirrorable spec_isIndyDid spec_getUnQualifiedDidIndyDid example_array_options"
    by (simp add: mirrorable_def mirrorInputs_def example_array_options_def example_options_def
        example_w3c_array_subject_def example_w3c_record_def
        spec_isIndyDid_def spec_getUnQualifiedDidIndyDid_def startsWith_def)
  from array_subject_rejected [of example_w3c_array_subject example_array_indy_options
      spec_isIndyDid spec_getUnQualifiedDidIndyDid example_encoder] a b m
  have one: "anoncredsCredentialInfoFromW3cRecord example_w3c_array_subject = Inl MalformedCredentialSubject
     \<and> getW3cRecordAnonCredsTags spec_isIndyDid spec_getUnQualifiedDidIndyDid example_encoder example_array_indy_options
         = Inl MalformedCredentialSubject"
    by simp
  have f: "firstError spec_getUnQualifiedDidIndyDid (mirrorInputs example_array_options) = Some InvalidIdentifier"
    by (simp add: mirrorInputs_def example_array_options_def example_options_def
        example_w3c_array_subject_def spec_getUnQualifiedDidIndyDid_def startsWith_def)
  from array_subject_rejected [of example_w3c_array_subject example_array_options
      spec_isIndyDid spec_getUnQualifiedDidIndyDid example_encoder] c n
  have two: "getW3cRecordAnonCredsTags spec_isIndyDid spec_getUnQualifiedDidIndyDid example_encoder example_array_options
       = Inl InvalidIdentifier"
    by (simp add: f)
  from a m n one two show ?thesis by simp
qed

subsection \<open>Normalising the options of a store request\<close>

text \<open>
  What the normalisation does to a request whose four identifier fields are qualified:
  only the definition of the registry can still be handed to a qualifier.
\<close>

lemma getStoreCredentialOptions_qualified:
  assumes "alreadyQualified q options"
  shows "getStoreCredentialOptions q uuid options ns =
     (case so_revocationRegistry options of
        None \<Rightarrow> Inr (options \<lparr> so_credentialId := Some uuid \<rparr>)
      | Some rr \<Rightarrow>
          if isUnqualifiedDidIndyRevocationRegistryDefinition q (rr_definition rr)
          then bindE (getQualifiedDidIndyRevocationRegistryDefinition q (rr_definition rr) ns)
                 (\<lambda>d. Inr (options \<lparr> so_credentialId := Some uuid,
                                      so_revocationRegistry := Some (rr \<lparr> rr_definition := d \<rparr>) \<rparr>))
          else Inr (options \<lparr> so_credentialId := Some uuid \<rparr>))"
proof (cases "so_revocationRegistry options")
  case None
  with assms show ?thesis
    by (simp add: getStoreCredentialOptions_def alreadyQualified_def)
next
  case (Some rr)
  show ?thesis
  proof (cases "isUnqualifiedDidIndyRevocationRegistryDefinition q (rr_definition rr)")
    case False
    with assms Some show ?thesis
      by (simp add: getStoreCredentialOptions_def alreadyQualified_def)
  next
    case True
    with assms Some show ?thesis
      by (cases "getQualifiedDidIndyRevocationRegistryDefinition q (rr_definition rr) ns")
         (simp_all add: getStoreCredentialOptions_def alreadyQualified_def)
  qed
qed

lemma getStoreCredentialOptions_keeps_fields:
  assumes "alreadyQualified q options"
    and "getStoreCredentialOptions q uuid options ns = Inr options'"
  shows "sameIdentifierFields options' options \<and> alreadyQualified q options'"
proof (cases "so_revocationRegistry options")
  case None
  with assms(2) have "options' = options \<lparr> so_credentialId := Some uuid \<rparr>"
    by (simp add: getStoreCredentialOptions_qualified [OF assms(1)])
  with assms(1) None show ?thesis
    by (simp add: sameIdentifierFields_def alreadyQualified_def)
next
  case (Some rr)
  show ?thesis
  proof (cases "isUnqualifiedDidIndyRevocationRegistryDefinition q (rr_definition rr)")
    case False
    with assms(2) Some have "options' = options \<lparr> so_credentialId := Some uuid \<rparr>"
      by (simp add: getStoreCredentialOptions_qualified [OF assms(1)])
    with assms(1) Some show ?thesis
      by (simp add: sameIdentifierFields_def alreadyQualified_def)
  next
    case True
    with assms(2) Some obtain d where
      "options' = options \<lparr> so_credentialId := Some uuid,
                             so_revocationRegistry := Some (rr \<lparr> rr_definition := d \<rparr>) \<rparr>"
      by (cases "getQualifiedDidIndyRevocationRegistryDefinition q (rr_definition rr) ns")
         (auto simp: getStoreCredentialOptions_qualified [OF assms(1)])
    with assms(1) Some show ?thesis
      by (simp add: sameIdentifierFields_def alreadyQualified_def)
  qed
qed

lemma getStoreCredentialOptions_fully_qualified:
  assumes "alreadyQualified q options" and "definitionQualified q options"
  shows "getStoreCredentialOptions q uuid options ns = Inr (options \<lparr> so_credentialId := Some uuid \<rparr>)"
  using assms(2)
  by (cases "so_revocationRegistry options")
     (simp_all add: getStoreCredentialOptions_qualified [OF assms(1)] definitionQualified_def)

text \<open>
  C8, as the claim states it, fails: the four identifier fields of the example request are
  in qualified form, the definition of its registry is not, no namespace is given, and
  the normalisation raises what the qualifier of the definition raises, returning nothing.
\<close>

theorem store_options_raise_on_legacy_definition:
  "alreadyQualified example_qualifier example_store_options_legacy_definition
   \<and> getStoreCredentialOptions example_qualifier ''uuid-1'' example_store_options_legacy_definition None
       = Inl InvalidIdentifier"
  by (simp add: alreadyQualified_def getStoreCredentialOptions_def example_qualifier_def
      example_store_options_legacy_definition_def example_store_options_def
      spec_isUnqualified_def spec_getQualifiedDidIndyDid_def startsWith_def)

text \<open>
  C8, amended: when the credential definition id, the credential definition, the schema
  and the revocation registry id of a store request are already in qualified form, the
  normalisation calls no qualifier but, possibly, the one of the registry's definition.
  If that definition is in qualified form too (or no registry is given), the normalisation
  returns the request unchanged but for the fresh credential id, and so does normalising
  its output. If that definition is recognised as unqualified, the normalisation raises
  what its qualifier raises, and otherwise returns the request with the qualifier's
  result for the definition. Whatever it returns has the four identifier fields unchanged
  and is again in qualified form.
\<close>

theorem store_options_unchanged_when_qualified:
  assumes "alreadyQualified q options"
  shows "getStoreCredentialOptions q uuid options ns =
       (case so_revocationRegistry options of
          None \<Rightarrow> Inr (options \<lparr> so_credentialId := Some uuid \<rparr>)
        | Some rr \<Rightarrow>
            if isUnqualifiedDidIndyRevocationRegistryDefinition q (rr_definition rr)
            then bindE (getQualifiedDidIndyRevocationRegistryDefinition q (rr_definition rr) ns)
                   (\<lambda>d. Inr (options \<lparr> so_credentialId := Some uuid,
                                        so_revocationRegistry := Some (rr \<lparr> rr_definition := d \<rparr>) \<rparr>))
            else Inr (options \<lparr> so_credentialId := Some uuid \<rparr>))
     \<and> (\<forall>options'. getStoreCredentialOptions q uuid options ns = Inr options' \<longrightarrow>
            sameIdentifierFields options' options \<and> alreadyQualified q options')
     \<and> (definitionQualified q options \<longrightarrow>
            getStoreCredentialOptions q uuid options ns = Inr (options \<lparr> so_credentialId := Some uuid \<rparr>)
          \<and> bindE (getStoreCredentialOptions q uuid options ns)
               (\<lambda>options'. getStoreCredentialOptions q uuid' options' ns')
             = Inr (options \<lparr> so_credentialId := Some uuid' \<rparr>))"
proof (intro conjI allI impI)
  show "getStoreCredentialOptions q uuid options ns =
       (case so_revocationRegistry options of
          None \<Rightarrow> Inr (options \<lparr> so_credentialId := Some uuid \<rparr>)
        | Some rr \<Rightarrow>
            if isUnqualifiedDidIndyRevocationRegistryDefinition q (rr_definition rr)
            then bindE (getQualifiedDidIndyRevocationRegistryDefinition q (rr_definition rr) ns)
                   (\<lambda>d. Inr (options \<lparr> so_credentialId := Some uuid,
                                        so_revocationRegistry := Some (rr \<lparr> rr_definition := d \<rparr>) \<rparr>))
            else Inr (options \<lparr> so_credentialId := Some uuid \<rparr>))"
    by (rule getStoreCredentialOptions_qualified [OF assms])
next
  fix options'
  assume r: "getStoreCredentialOptions q uuid options ns = Inr options'"
  from getStoreCredentialOptions_keeps_fields [OF assms r]
  show "sameIdentifierFields options' options" and "alreadyQualified q options'"
    by simp_all
next
  assume d: "definitionQualified q options"
  show first: "getStoreCredentialOptions q uuid options ns = Inr (options \<lparr> so_credentialId := Some uuid \<rparr>)"
    by (rule getStoreCredentialOptions_fully_qualified [OF assms d])
  have "alreadyQualified q (options \<lparr> so_credentialId := Some uuid \<rparr>)"
    and "definitionQualified q (options \<lparr> so_credentialId := Some uuid \<rparr>)"
    using assms d by (simp_all add: alreadyQualified_def definitionQualified_def)
  then have "getStoreCredentialOptions q uuid' (options \<lparr> so_credentialId := Some uuid \<rparr>) ns'
      = Inr (options \<lparr> so_credentialId := Some uuid' \<rparr>)"
    by (simp add: getStoreCredentialOptions_fully_qualified)
  then show "bindE (getStoreCredentialOptions q uuid options ns)
               (\<lambda>options'. getStoreCredentialOptions q uuid' options' ns')
             = Inr (options \<lparr> so_credentialId := Some uuid' \<rparr>)"
    by (simp add: first)
qed

theorem store_options_unchanged_when_qualified_witness:
  "alreadyQualified example_qualifier example_store_options
   \<and> definitionQualified example_qualifier example_store_options
   \<and> getStoreCredentialOptions example_qualifier ''uuid-1'' example_store_options (Some ''sovrin'')
       = Inr (example_store_options \<lparr> so_credentialId := Some ''uuid-1'' \<rparr>)
   \<and> alreadyQualified example_qualifier example_store_options_legacy_definition
   \<and> getStoreCredentialOptions example_qualifier ''uuid-1'' example_store_options_legacy_definition
         (Some ''sovrin'')
       = Inr (example_store_options \<lparr>
                so_credentialId := Some ''uuid-1'',
                so_revocationRegistry := Some \<lparr>
                  rr_definition = ''did:indy:sovrin:XYZ'',
                  rr_id = ''did:indy:sovrin:XYZ/anoncreds/v0/REV_REG_DEF/7/default/r1'' \<rparr> \<rparr>)"
proof -
  have q: "alreadyQualified example_qualifier example_store_options"
    by (simp add: alreadyQualified_def example_qualifier_def example_store_options_def
        spec_isUnqualified_def startsWith_def)
  have d: "definitionQualified example_qualifier example_store_options"
    by (simp add: definitionQualified_def example_qualifier_def example_store_options_def
        spec_isUnqualified_def startsWith_def)
  have ql: "alreadyQualified example_qualifier example_store_options_legacy_definition"
    by (simp add: alreadyQualified_def example_qualifier_def example_store_options_legacy_definition_def
        example_store_options_def spec_isUnqualified_def startsWith_def)
  from store_options_unchanged_when_qualified
         [OF q, of "''uuid-1''" "Some ''sovrin''" "''uuid-2''" "Some ''sovrin''"]
  have "definitionQualified example_qualifier example_store_options \<longrightarrow>
            getStoreCredentialOptions example_qualifier ''uuid-1'' example_store_options (Some ''sovrin'')
              = Inr (example_store_options \<lparr> so_credentialId := Some ''uuid-1'' \<rparr>)
          \<and> bindE (getStoreCredentialOptions example_qualifier ''uuid-1'' example_store_options (Some ''sovrin''))
               (\<lambda>options'. getStoreCredentialOptions example_qualifier ''uuid-2'' options' (Some ''sovrin''))
             = Inr (example_store_options \<lparr> so_credentialId := Some ''uuid-2'' \<rparr>)"
    by (elim conjE)
  from this d
  have "getStoreCredentialOptions example_qualifier ''uuid-1'' example_store_options (Some ''sovrin'')
              = Inr (example_store_options \<lparr> so_credentialId := Some ''uuid-1'' \<rparr>)
          \<and> bindE (getStoreCredentialOptions example_qualifier ''uuid-1'' example_store_options (Some ''sovrin''))
               (\<lambda>options'. getStoreCredentialOptions example_qualifier ''uuid-2'' options' (Some ''sovrin''))
             = Inr (example_store_options \<lparr> so_credentialId := Some ''uuid-2'' \<rparr>)"
    by (rule mp)
  then have one: "getStoreCredentialOptions example_qualifier ''uuid-1'' example_store_options (Some ''sovrin'')
       = Inr (example_store_options \<lparr> so_credentialId := Some ''uuid-1'' \<rparr>)"
    by (rule conjunct1)
  from store_options_unchanged_when_qualified
         [OF ql, of "''uuid-1''" "Some ''sovrin''" "''uuid-2''" "Some ''sovrin''"]
  have "getStoreCredentialOptions example_qualifier ''uuid-1'' example_store_options_legacy_definition
         (Some ''sovrin'') =
       (case so_revocationRegistry example_store_options_legacy_definition of
          None \<Rightarrow> Inr (example_store_options_legacy_definition \<lparr> so_credentialId := Some ''uuid-1'' \<rparr>)
        | Some rr \<Rightarrow>
            if isUnqualifiedDidIndyRevocationRegistryDefinition example_qualifier (rr_definition rr)
            then bindE (getQualifiedDidIndyRevocationRegistryDefinition example_qualifier (rr_definition rr)
                          (Some ''sovrin''))
                   (\<lambda>d. Inr (example_store_options_legacy_definition \<lparr> so_credentialId := Some ''uuid-1'',
                                        so_revocationRegistry := Some (rr \<lparr> rr_definition := d \<rparr>) \<rparr>))
            else Inr (example_store_options_legacy_definition \<lparr> so_credentialId := Some ''uuid-1'' \<rparr>))"
    by (rule conjunct1)
  then have two: "getStoreCredentialOptions example_qualifier ''uuid-1'' example_store_options_legacy_definition
         (Some ''sovrin'')
       = Inr (example_store_options \<lparr>
                so_credentialId := Some ''uuid-1'',
                so_revocationRegistry := Some \<lparr>
                  rr_definition = ''did:indy:sovrin:XYZ'',
                  rr_id = ''did:indy:sovrin:XYZ/anoncreds/v0/REV_REG_DEF/7/default/r1'' \<rparr> \<rparr>)"
    by (simp add: example_store_options_legacy_definition_def example_qualifier_def
        spec_isUnqualified_def spec_getQualifiedDidIndyDid_def startsWith_def bindE_def)
  from q d ql one two show ?thesis by simp
qed

text \<open>An unqualified credential definition id does get qualified.\<close>

lemma store_options_qualifies_unqualified_id:
  "getStoreCredentialOptions example_qualifier ''uuid-1''
     (example_store_options \<lparr> so_credentialDefinitionId := ''XYZ:3:CL:7:default'' \<rparr>) (Some ''sovrin'')
   = Inr (example_store_options \<lparr> so_credentialId := Some ''uuid-1'',
                                   so_credentialDefinitionId := ''did:indy:sovrin:XYZ:3:CL:7:default'' \<rparr>)"
  by (simp add: getStoreCredentialOptions_def example_qualifier_def example_store_options_def
      spec_isUnqualified_def spec_getQualifiedDidIndyDid_def startsWith_def)

end
